theory Spec2Isabelle
  imports Main "HOL-Library.Word"
begin

section \<open>The contract FinancialRecommendationFHE\<close>

text \<open>
  A shallow embedding of \<^verbatim>\<open>src/contracts/FinancialRecommendationFHE.sol\<close>
  (Solidity 0.8.24, so every arithmetic operation outside \<^verbatim>\<open>unchecked\<close> is checked
  and a failing \<^verbatim>\<open>require\<close>, a failing \<^verbatim>\<open>abi.decode\<close> and an arithmetic
  overflow all revert the whole call).

  \<^item> \<^verbatim>\<open>uint256\<close> and \<^verbatim>\<open>uint32\<close> are words of that width; an \<^verbatim>\<open>euint32\<close> is the
    32-byte handle of a ciphertext, and \<^verbatim>\<open>FHE.toBytes32\<close> only unwraps it.
  \<^item> A Solidity \<^verbatim>\<open>mapping\<close> is a total function: a key never written reads as the
    all-zero value of the value type.
  \<^item> A call returns \<open>Inl e\<close> when it reverts (storage is then what it was before the
    call and no event is logged) and \<open>Inr (s', effects)\<close> when it succeeds.
  \<^item> The library \<^verbatim>\<open>@fhevm/solidity\<close> is not part of the repository. What it decides
    is a parameter (\<open>fhe_lib\<close>): whether \<^verbatim>\<open>FHE.checkSignatures\<close> accepts a proof,
    the handle \<^verbatim>\<open>FHE.asEuint32\<close> gives a plaintext, and whether
    \<^verbatim>\<open>FHE.requestDecryption\<close> returns or reverts on the handles it is given (it
    reverts when the access control list of the library does not allow the contract on
    one of them). The request id that \<^verbatim>\<open>FHE.requestDecryption\<close> returns when it
    returns, and \<^verbatim>\<open>block.timestamp\<close>, are arguments of the calls that read them.
\<close>

type_synonym uint256 = "256 word"
type_synonym uint32 = "32 word"
type_synonym euint32 = "256 word"
type_synonym bytes = "8 word list"

text \<open>
  The argument \<^verbatim>\<open>cleartexts\<close> is ABI-encoded data. Both callbacks decode it as a
  tuple of static \<^verbatim>\<open>uint32\<close> values, which reads consecutive 32-byte words, so it is
  kept as the list of its 32-byte words.
\<close>

type_synonym abi_words = "uint256 list"

record EncryptedProfile =
  profileId :: uint256
  encryptedIncome :: euint32
  encryptedAssets :: euint32
  encryptedRiskTolerance :: euint32
  encryptedGoals :: euint32
  timestamp :: uint256

record EncryptedRecommendation =
  recommendationId :: uint256
  encryptedProductId :: euint32
  encryptedMatchScore :: euint32
  ofProfileId :: uint256
  generatedAt :: uint256

record DecryptedResult =
  productId :: uint32
  matchScore :: uint32
  isRevealed :: bool

record state =
  profileCount :: uint256
  recommendationCount :: uint256
  encryptedProfiles :: "uint256 \<Rightarrow> EncryptedProfile"
  encryptedRecommendations :: "uint256 \<Rightarrow> EncryptedRecommendation"
  decryptedResults :: "uint256 \<Rightarrow> DecryptedResult"
  requestToProfileId :: "uint256 \<Rightarrow> uint256"
  recommendationRequestToId :: "uint256 \<Rightarrow> uint256"

text \<open>
  The reverts of the contract. \<open>InvalidRequest\<close> is \<^verbatim>\<open>require(.. != 0, "Invalid request")\<close>
  (the specification's UnknownRequest), \<open>AlreadyDecrypted\<close> is
  \<^verbatim>\<open>require(!..isRevealed, "Already decrypted")\<close> (AlreadyRevealed), \<open>InvalidProof\<close> is
  the revert of \<^verbatim>\<open>FHE.checkSignatures\<close>, \<open>MalformedPayload\<close> the revert of
  \<^verbatim>\<open>abi.decode\<close>, \<open>ArithmeticOverflow\<close> is Panic(0x11) of checked arithmetic, and
  \<open>DecryptionRequestReverted\<close> is a revert inside \<^verbatim>\<open>FHE.requestDecryption\<close>. The
  contract has no error for a subject that does not exist.
\<close>

datatype error = InvalidRequest | AlreadyDecrypted | InvalidProof | MalformedPayload
  | ArithmeticOverflow | DecryptionRequestReverted

datatype selector = generateRecommendation_selector | decryptRecommendation_selector

text \<open>
  What a successful call sends out: the four events of the contract, and the external call
  \<^verbatim>\<open>FHE.requestDecryption(ciphertexts, selector)\<close>.
\<close>

datatype effect =
    ProfileSubmitted uint256 uint256
  | RecommendationRequested uint256 uint256
  | RecommendationGenerated uint256
  | ResultDecrypted uint256
  | RequestDecryption "euint32 list" selector

record fhe_lib =
  checkSignatures :: "uint256 \<Rightarrow> abi_words \<Rightarrow> bytes \<Rightarrow> bool"
  asEuint32 :: "uint32 \<Rightarrow> euint32"
  requestDecryption_returns :: "euint32 list \<Rightarrow> selector \<Rightarrow> bool"

definition init_state :: state where
  "init_state = \<lparr> profileCount = 0, recommendationCount = 0,
     encryptedProfiles = (\<lambda>_. \<lparr> profileId = 0, encryptedIncome = 0, encryptedAssets = 0,
        encryptedRiskTolerance = 0, encryptedGoals = 0, timestamp = 0 \<rparr>),
     encryptedRecommendations = (\<lambda>_. \<lparr> recommendationId = 0, encryptedProductId = 0,
        encryptedMatchScore = 0, ofProfileId = 0, generatedAt = 0 \<rparr>),
     decryptedResults = (\<lambda>_. \<lparr> productId = 0, matchScore = 0, isRevealed = False \<rparr>),
     requestToProfileId = (\<lambda>_. 0),
     recommendationRequestToId = (\<lambda>_. 0) \<rparr>"

subsection \<open>Checked arithmetic and decoding\<close>

definition checked_add32 :: "uint32 \<Rightarrow> uint32 \<Rightarrow> error + uint32" where
  "checked_add32 a b =
     (if unat a + unat b < 2 ^ 32 then Inr (a + b) else Inl ArithmeticOverflow)"

definition checked_mul32 :: "uint32 \<Rightarrow> uint32 \<Rightarrow> error + uint32" where
  "checked_mul32 a b =
     (if unat a * unat b < 2 ^ 32 then Inr (a * b) else Inl ArithmeticOverflow)"

definition checked_inc256 :: "uint256 \<Rightarrow> error + uint256" where
  "checked_inc256 a = (if a = - 1 then Inl ArithmeticOverflow else Inr (a + 1))"

text \<open>
  \<^verbatim>\<open>abi.decode(cleartexts, (uint32, ...))\<close>: one 32-byte word for each component;
  it reverts when the data is too short or a word does not fit \<^verbatim>\<open>uint32\<close>, and it
  ignores what follows the last component.
\<close>

definition decode_uint32 :: "uint256 \<Rightarrow> uint32 option" where
  "decode_uint32 w = (if w < 2 ^ 32 then Some (ucast w) else None)"

fun abi_decode4 :: "abi_words \<Rightarrow> (uint32 \<times> uint32 \<times> uint32 \<times> uint32) option" where
  "abi_decode4 (a # b # c # d # _) =
     (case (decode_uint32 a, decode_uint32 b, decode_uint32 c, decode_uint32 d) of
        (Some a', Some b', Some c', Some d') \<Rightarrow> Some (a', b', c', d')
      | _ \<Rightarrow> None)"
| "abi_decode4 _ = None"

fun abi_decode2 :: "abi_words \<Rightarrow> (uint32 \<times> uint32) option" where
  "abi_decode2 (a # b # _) =
     (case (decode_uint32 a, decode_uint32 b) of
        (Some a', Some b') \<Rightarrow> Some (a', b')
      | _ \<Rightarrow> None)"
| "abi_decode2 _ = None"

subsection \<open>The scoring helpers\<close>

definition determineProductId :: "uint32 \<Rightarrow> uint32 \<Rightarrow> uint32 \<Rightarrow> uint32 \<Rightarrow> uint32" where
  "determineProductId income assets riskScore goals =
     (if riskScore > 70 \<and> assets > 500000 then 3
      else if income > 100000 \<and> goals = 2 then 2
      else 1)"

definition calculateMatchScore :: "uint32 \<Rightarrow> uint32 \<Rightarrow> uint32 \<Rightarrow> uint32 \<Rightarrow> error + uint32" where
  "calculateMatchScore income assets riskScore goals =
     (case checked_add32 (income div 10000) (assets div 100000) of
        Inl e \<Rightarrow> Inl e
      | Inr t1 \<Rightarrow>
     (case checked_add32 t1 riskScore of
        Inl e \<Rightarrow> Inl e
      | Inr t2 \<Rightarrow>
     (case checked_mul32 goals 10 of
        Inl e \<Rightarrow> Inl e
      | Inr g10 \<Rightarrow>
     (case checked_add32 t2 g10 of
        Inl e \<Rightarrow> Inl e
      | Inr score \<Rightarrow> Inr (if score > 100 then 100 else score)))))"

text \<open>
  Lines 104 and 105 of the contract, the two helper calls of \<^verbatim>\<open>generateRecommendation\<close>
  one after the other: the specification's \<^verbatim>\<open>compute\<close>.
\<close>

definition compute :: "uint32 \<Rightarrow> uint32 \<Rightarrow> uint32 \<Rightarrow> uint32 \<Rightarrow> error + (uint32 \<times> uint32)" where
  "compute income assets riskScore goals =
     (let prodId = determineProductId income assets riskScore goals
      in case calculateMatchScore income assets riskScore goals of
           Inl e \<Rightarrow> Inl e
         | Inr score \<Rightarrow> Inr (prodId, score))"

text \<open>The sum of the scoring formula over the natural numbers, where nothing overflows.\<close>

definition score_sum :: "uint32 \<Rightarrow> uint32 \<Rightarrow> uint32 \<Rightarrow> uint32 \<Rightarrow> nat" where
  "score_sum income assets riskScore goals =
     unat income div 10000 + unat assets div 100000 + unat riskScore + unat goals * 10"

subsection \<open>The functions of the contract\<close>

definition submitEncryptedProfile ::
  "state \<Rightarrow> uint256 \<Rightarrow> euint32 \<Rightarrow> euint32 \<Rightarrow> euint32 \<Rightarrow> euint32 \<Rightarrow> error + (state \<times> effect list)" where
  "submitEncryptedProfile s block_timestamp encIncome encAssets encRiskTolerance encGoals =
     (case checked_inc256 (profileCount s) of
        Inl e \<Rightarrow> Inl e
      | Inr newProfileId \<Rightarrow>
          Inr (s\<lparr> profileCount := newProfileId,
                 encryptedProfiles := (encryptedProfiles s)(newProfileId :=
                   \<lparr> profileId = newProfileId, encryptedIncome = encIncome,
                     encryptedAssets = encAssets, encryptedRiskTolerance = encRiskTolerance,
                     encryptedGoals = encGoals, timestamp = block_timestamp \<rparr>) \<rparr>,
               [ProfileSubmitted newProfileId block_timestamp]))"

text \<open>
  The modifier \<^verbatim>\<open>onlyClient\<close> has an empty body. The external call
  \<^verbatim>\<open>FHE.requestDecryption\<close> of line 80 comes before the write to the mapping: when
  it reverts the whole call reverts, and when it returns \<open>reqId\<close> is the value it
  returned.
\<close>

definition requestFinancialRecommendation ::
  "fhe_lib \<Rightarrow> state \<Rightarrow> uint256 \<Rightarrow> uint256 \<Rightarrow> error + (state \<times> effect list)" where
  "requestFinancialRecommendation lib s reqId pid =
     (let profile = encryptedProfiles s pid;
          ciphertexts = [encryptedIncome profile, encryptedAssets profile,
                         encryptedRiskTolerance profile, encryptedGoals profile]
      in if \<not> requestDecryption_returns lib ciphertexts generateRecommendation_selector
         then Inl DecryptionRequestReverted
         else Inr (s\<lparr> requestToProfileId := (requestToProfileId s)(reqId := pid) \<rparr>,
              [RequestDecryption ciphertexts generateRecommendation_selector,
               RecommendationRequested reqId pid]))"

definition generateRecommendation ::
  "fhe_lib \<Rightarrow> state \<Rightarrow> uint256 \<Rightarrow> uint256 \<Rightarrow> abi_words \<Rightarrow> bytes \<Rightarrow> error + (state \<times> effect list)" where
  "generateRecommendation lib s block_timestamp requestId cleartexts prf =
     (let pid = requestToProfileId s requestId in
      if pid = 0 then Inl InvalidRequest
      else if \<not> checkSignatures lib requestId cleartexts prf then Inl InvalidProof
      else case abi_decode4 cleartexts of
        None \<Rightarrow> Inl MalformedPayload
      | Some (income, assets, riskScore, goals) \<Rightarrow>
     (case checked_inc256 (recommendationCount s) of
        Inl e \<Rightarrow> Inl e
      | Inr newRecommendationId \<Rightarrow>
     (case compute income assets riskScore goals of
        Inl e \<Rightarrow> Inl e
      | Inr (prodId, score) \<Rightarrow>
          Inr (s\<lparr> recommendationCount := newRecommendationId,
                 encryptedRecommendations := (encryptedRecommendations s)(newRecommendationId :=
                   \<lparr> recommendationId = newRecommendationId,
                     encryptedProductId = asEuint32 lib prodId,
                     encryptedMatchScore = asEuint32 lib score,
                     ofProfileId = pid, generatedAt = block_timestamp \<rparr>),
                 decryptedResults := (decryptedResults s)(newRecommendationId :=
                   \<lparr> productId = prodId, matchScore = score, isRevealed = False \<rparr>) \<rparr>,
               [RecommendationGenerated newRecommendationId]))))"

definition requestRecommendationDecryption ::
  "fhe_lib \<Rightarrow> state \<Rightarrow> uint256 \<Rightarrow> uint256 \<Rightarrow> error + (state \<times> effect list)" where
  "requestRecommendationDecryption lib s reqId recId =
     (let rec = encryptedRecommendations s recId in
      if isRevealed (decryptedResults s recId) then Inl AlreadyDecrypted
      else
        let ciphertexts = [encryptedProductId rec, encryptedMatchScore rec]
        in if \<not> requestDecryption_returns lib ciphertexts decryptRecommendation_selector
           then Inl DecryptionRequestReverted
           else Inr (s\<lparr> recommendationRequestToId :=
                         (recommendationRequestToId s)(reqId := recId) \<rparr>,
                [RequestDecryption ciphertexts decryptRecommendation_selector]))"

definition decryptRecommendation ::
  "fhe_lib \<Rightarrow> state \<Rightarrow> uint256 \<Rightarrow> abi_words \<Rightarrow> bytes \<Rightarrow> error + (state \<times> effect list)" where
  "decryptRecommendation lib s requestId cleartexts prf =
     (let recId = recommendationRequestToId s requestId in
      if recId = 0 then Inl InvalidRequest
      else if isRevealed (decryptedResults s recId) then Inl AlreadyDecrypted
      else if \<not> checkSignatures lib requestId cleartexts prf then Inl InvalidProof
      else case abi_decode2 cleartexts of
        None \<Rightarrow> Inl MalformedPayload
      | Some (prodId, score) \<Rightarrow>
          Inr (s\<lparr> decryptedResults := (decryptedResults s)(recId :=
                   \<lparr> productId = prodId, matchScore = score, isRevealed = True \<rparr>) \<rparr>,
               [ResultDecrypted recId]))"

text \<open>The three view functions; none of them has a \<^verbatim>\<open>require\<close>.\<close>

definition getDecryptedResult :: "state \<Rightarrow> uint256 \<Rightarrow> error + (uint32 \<times> uint32 \<times> bool)" where
  "getDecryptedResult s recId =
     (let r = decryptedResults s recId in Inr (productId r, matchScore r, isRevealed r))"

definition getEncryptedProfile ::
  "state \<Rightarrow> uint256 \<Rightarrow> error + (euint32 \<times> euint32 \<times> euint32 \<times> euint32 \<times> uint256)" where
  "getEncryptedProfile s pid =
     (let p = encryptedProfiles s pid
      in Inr (encryptedIncome p, encryptedAssets p, encryptedRiskTolerance p,
              encryptedGoals p, timestamp p))"

definition getEncryptedRecommendation ::
  "state \<Rightarrow> uint256 \<Rightarrow> error + (euint32 \<times> euint32 \<times> uint256 \<times> uint256)" where
  "getEncryptedRecommendation s recId =
     (let r = encryptedRecommendations s recId
      in Inr (encryptedProductId r, encryptedMatchScore r, ofProfileId r, generatedAt r))"

subsection \<open>Sequences of calls\<close>

text \<open>
  A transaction is one call of a mutating function. A reverted transaction leaves the
  storage as it was and logs nothing; the next transaction runs all the same.
\<close>

datatype call =
    Submit uint256 euint32 euint32 euint32 euint32
  | RequestRecommendation uint256 uint256
  | GenerateRecommendation uint256 uint256 abi_words bytes
  | RequestDecryptionOf uint256 uint256
  | DecryptRecommendation uint256 abi_words bytes

fun call_result :: "fhe_lib \<Rightarrow> state \<Rightarrow> call \<Rightarrow> error + (state \<times> effect list)" where
  "call_result lib s (Submit ts a b c d) = submitEncryptedProfile s ts a b c d"
| "call_result lib s (RequestRecommendation reqId pid) = requestFinancialRecommendation lib s reqId pid"
| "call_result lib s (GenerateRecommendation ts reqId cl prf) = generateRecommendation lib s ts reqId cl prf"
| "call_result lib s (RequestDecryptionOf reqId recId) = requestRecommendationDecryption lib s reqId recId"
| "call_result lib s (DecryptRecommendation reqId cl prf) = decryptRecommendation lib s reqId cl prf"

definition exec :: "fhe_lib \<Rightarrow> state \<Rightarrow> call \<Rightarrow> state \<times> effect list" where
  "exec lib s c = (case call_result lib s c of Inl e \<Rightarrow> (s, []) | Inr r \<Rightarrow> r)"

fun run :: "fhe_lib \<Rightarrow> state \<Rightarrow> call list \<Rightarrow> state \<times> effect list" where
  "run lib s [] = (s, [])"
| "run lib s (c # cs) =
     (case exec lib s c of (s', ev) \<Rightarrow>
        (case run lib s' cs of (s'', evs) \<Rightarrow> (s'', ev @ evs)))"

text \<open>The identifiers announced by the events of a run, in the order of the run.\<close>

fun submitted_ids :: "effect list \<Rightarrow> uint256 list" where
  "submitted_ids [] = []"
| "submitted_ids (ProfileSubmitted i _ # es) = i # submitted_ids es"
| "submitted_ids (_ # es) = submitted_ids es"

fun generated_ids :: "effect list \<Rightarrow> uint256 list" where
  "generated_ids [] = []"
| "generated_ids (RecommendationGenerated i # es) = i # generated_ids es"
| "generated_ids (_ # es) = generated_ids es"

text \<open>The states a sequence of calls goes through, the starting state first.\<close>

fun trace :: "fhe_lib \<Rightarrow> state \<Rightarrow> call list \<Rightarrow> state list" where
  "trace lib s [] = [s]"
| "trace lib s (c # cs) = s # trace lib (fst (exec lib s c)) cs"

text \<open>The value of \<^verbatim>\<open>encryptedProfiles\<close> at a key that was never written.\<close>

definition zero_profile :: EncryptedProfile where
  "zero_profile = \<lparr> profileId = 0, encryptedIncome = 0, encryptedAssets = 0,
        encryptedRiskTolerance = 0, encryptedGoals = 0, timestamp = 0 \<rparr>"

text \<open>The value of \<^verbatim>\<open>encryptedRecommendations\<close> at a key that was never written.\<close>

definition zero_recommendation :: EncryptedRecommendation where
  "zero_recommendation = \<lparr> recommendationId = 0, encryptedProductId = 0,
        encryptedMatchScore = 0, ofProfileId = 0, generatedAt = 0 \<rparr>"

subsection \<open>Concrete scenarios\<close>

text \<open>
  A library for the scenarios below: the only proof it accepts is the single byte 01, the
  handle of a trivially encrypted plaintext is the plaintext itself, and a decryption
  request goes through when none of its handles is the zero handle (the handle of a
  ciphertext that was never created, on which no contract is ever allowed).
\<close>

definition test_lib :: fhe_lib where
  "test_lib = \<lparr> checkSignatures = (\<lambda>requestId cleartexts prf. prf = [1]),
                asEuint32 = ucast,
                requestDecryption_returns = (\<lambda>handles callback. 0 \<notin> set handles) \<rparr>"

text \<open>
  One profile is submitted (\<open>s_submitted\<close>) and a recommendation is requested for it,
  the oracle answering with request id 7 (\<open>s_pending\<close>); the oracle's callback for request 7 delivers the
  plaintext profile (50000, 600000, 80, 1) (\<open>s_generated\<close>); the reveal of recommendation 1
  is requested twice, with request ids 8 and 9 (\<open>s_reveal_pending\<close>); the callback for
  request 8 arrives (\<open>s_revealed\<close>).
\<close>

definition s_submitted :: state where
  "s_submitted = fst (run test_lib init_state [Submit 1000 11 12 13 14])"

definition s_pending :: state where
  "s_pending = fst (run test_lib s_submitted [RequestRecommendation 7 1])"

definition s_generated :: state where
  "s_generated = fst (run test_lib s_pending
     [GenerateRecommendation 1001 7 [50000, 600000, 80, 1] [1]])"

definition s_reveal_pending :: state where
  "s_reveal_pending = fst (run test_lib s_generated
     [RequestDecryptionOf 8 1, RequestDecryptionOf 9 1])"

definition s_revealed :: state where
  "s_revealed = fst (run test_lib s_reveal_pending [DecryptRecommendation 8 [3, 100] [1]])"

section \<open>The scoring function\<close>

lemma unat_add32_no_overflow:
  "unat (a::uint32) + unat b < 2 ^ 32 \<Longrightarrow> unat (a + b) = unat a + unat b"
  by (simp add: unat_word_ariths)

lemma unat_mul32_no_overflow:
  "unat (a::uint32) * unat b < 2 ^ 32 \<Longrightarrow> unat (a * b) = unat a * unat b"
  by (simp add: unat_word_ariths)

lemma calculateMatchScore_overflow:
  assumes "2 ^ 32 \<le> score_sum i a r g"
  shows "calculateMatchScore i a r g = Inl ArithmeticOverflow"
  using assms
  unfolding calculateMatchScore_def score_sum_def checked_add32_def checked_mul32_def
  by (auto simp: unat_add32_no_overflow unat_mul32_no_overflow unat_div
           split: sum.splits if_splits)

lemma calculateMatchScore_ok:
  assumes "score_sum i a r g < 2 ^ 32"
  shows "\<exists>m. calculateMatchScore i a r g = Inr m \<and> unat m = min (score_sum i a r g) 100"
  using assms
  unfolding calculateMatchScore_def score_sum_def checked_add32_def checked_mul32_def
  by (auto simp: unat_add32_no_overflow unat_mul32_no_overflow unat_div word_less_nat_alt
           split: sum.splits if_splits)

lemma determineProductId_unat:
  "unat (determineProductId i a r g) =
     (if 70 < unat r \<and> 500000 < unat a then 3
      else if 100000 < unat i \<and> unat g = 2 then 2 else 1)"
proof -
  have "(g = 2) = (unat g = 2)"
    using word_unat_eq_iff [of g 2] by simp
  then show ?thesis
    by (simp add: determineProductId_def word_less_nat_alt)
qed

text \<open>
  Claim C3, as the code has it. The claim promises the product and the clamped sum for
  every four \<^verbatim>\<open>uint32\<close> inputs; the addition and \<^verbatim>\<open>goals * 10\<close> of
  \<^verbatim>\<open>calculateMatchScore\<close> are checked \<^verbatim>\<open>uint32\<close> operations, so with
  \<^verbatim>\<open>goals = 429496730\<close> the product \<^verbatim>\<open>goals * 10\<close> does not fit and the call
  reverts instead of returning (1, 100).
\<close>

theorem compute_formula_counterexample:
  "compute 0 0 0 429496730 = Inl ArithmeticOverflow"
  by (simp add: compute_def determineProductId_def calculateMatchScore_def
        checked_add32_def checked_mul32_def)

text \<open>
  Claim C3, amended: for every four \<^verbatim>\<open>uint32\<close> inputs whose sum
  \<^verbatim>\<open>income/10000 + assets/100000 + riskScore + goals*10\<close> is below \<open>2 ^ 32\<close>,
  \<^verbatim>\<open>compute\<close> returns the product 3 if \<^verbatim>\<open>riskScore > 70\<close> and \<^verbatim>\<open>assets > 500000\<close>,
  else 2 if \<^verbatim>\<open>income > 100000\<close> and \<^verbatim>\<open>goals == 2\<close>, else 1, and the score
  \<^verbatim>\<open>min(sum, 100)\<close> with floor division; and the three scenarios of the specification
  evaluate to (3, 100), (2, 45) and (1, 6).
\<close>

theorem compute_formula:
  "(score_sum income assets riskScore goals < 2 ^ 32 \<longrightarrow>
      (\<exists>p m. compute income assets riskScore goals = Inr (p, m)
         \<and> unat p = (if 70 < unat riskScore \<and> 500000 < unat assets then 3
                     else if 100000 < unat income \<and> unat goals = 2 then 2 else 1)
         \<and> unat m = min (unat income div 10000 + unat assets div 100000
                           + unat riskScore + unat goals * 10) 100))
   \<and> compute 50000 600000 80 1 = Inr (3, 100)
   \<and> compute 150000 10000 10 2 = Inr (2, 45)
   \<and> compute 10000 1000 5 0 = Inr (1, 6)"
proof (intro conjI impI)
  assume fits: "score_sum income assets riskScore goals < 2 ^ 32"
  from calculateMatchScore_ok [OF fits] obtain m where
    m: "calculateMatchScore income assets riskScore goals = Inr m"
       "unat m = min (score_sum income assets riskScore goals) 100"
    by blast
  have "compute income assets riskScore goals =
          Inr (determineProductId income assets riskScore goals, m)"
    by (simp add: compute_def m(1))
  moreover note determineProductId_unat [of income assets riskScore goals]
  moreover have "unat m = min (unat income div 10000 + unat assets div 100000
                           + unat riskScore + unat goals * 10) 100"
    using m(2) by (simp add: score_sum_def)
  ultimately show "\<exists>p m. compute income assets riskScore goals = Inr (p, m)
         \<and> unat p = (if 70 < unat riskScore \<and> 500000 < unat assets then 3
                     else if 100000 < unat income \<and> unat goals = 2 then 2 else 1)
         \<and> unat m = min (unat income div 10000 + unat assets div 100000
                           + unat riskScore + unat goals * 10) 100"
    by blast
next
  show "compute 50000 600000 80 1 = Inr (3, 100)"
    by (simp add: compute_def determineProductId_def calculateMatchScore_def
          checked_add32_def checked_mul32_def)
next
  show "compute 150000 10000 10 2 = Inr (2, 45)"
    by (simp add: compute_def determineProductId_def calculateMatchScore_def
          checked_add32_def checked_mul32_def)
next
  show "compute 10000 1000 5 0 = Inr (1, 6)"
    by (simp add: compute_def determineProductId_def calculateMatchScore_def
          checked_add32_def checked_mul32_def)
qed

theorem compute_formula_witness:
  "score_sum 150000 10000 80 2 < 2 ^ 32
   \<and> (\<exists>p m. compute 150000 10000 80 2 = Inr (p, m) \<and> unat p = 2 \<and> unat m = 100)"
  using compute_formula [of 150000 10000 80 2]
  by (simp add: score_sum_def)

text \<open>
  Claim C4, as the code has it. The claim says that no input makes the computation abort;
  with \<^verbatim>\<open>riskScore = 4294967295\<close> and \<^verbatim>\<open>goals = 1\<close> the checked sum overflows
  \<^verbatim>\<open>uint32\<close> and \<^verbatim>\<open>calculateMatchScore\<close> reverts.
\<close>

theorem compute_total_counterexample:
  "compute 0 0 4294967295 1 = Inl ArithmeticOverflow"
  by (simp add: compute_def determineProductId_def calculateMatchScore_def
        checked_add32_def checked_mul32_def)

text \<open>
  Claim C4, amended: \<^verbatim>\<open>compute\<close> returns a pair exactly for the inputs whose sum
  \<^verbatim>\<open>income/10000 + assets/100000 + riskScore + goals*10\<close> is below \<open>2 ^ 32\<close>; for
  every other input it aborts with the arithmetic overflow panic, and it has no other
  failure.
\<close>

theorem compute_returns_iff:
  "((\<exists>p. compute income assets riskScore goals = Inr p)
      \<longleftrightarrow> score_sum income assets riskScore goals < 2 ^ 32)
   \<and> ((\<exists>e. compute income assets riskScore goals = Inl e)
      \<longleftrightarrow> 2 ^ 32 \<le> score_sum income assets riskScore goals)
   \<and> (\<forall>e. compute income assets riskScore goals = Inl e \<longrightarrow> e = ArithmeticOverflow)"
proof (cases "score_sum income assets riskScore goals < 2 ^ 32")
  case True
  from calculateMatchScore_ok [OF True] obtain m where
    "calculateMatchScore income assets riskScore goals = Inr m" by blast
  then have "compute income assets riskScore goals =
          Inr (determineProductId income assets riskScore goals, m)"
    by (simp add: compute_def)
  with True show ?thesis by simp
next
  case False
  then have "2 ^ 32 \<le> score_sum income assets riskScore goals" by simp
  from calculateMatchScore_overflow [OF this]
  have "compute income assets riskScore goals = Inl ArithmeticOverflow"
    by (simp add: compute_def)
  with False show ?thesis by simp
qed

theorem compute_returns_iff_witness:
  "(\<exists>p. compute 20000 300000 7 3 = Inr p)
   \<and> compute 20000 300000 7 429496729 = Inl ArithmeticOverflow"
  using compute_returns_iff [of 20000 300000 7 3]
        compute_returns_iff [of 20000 300000 7 429496729]
  by (auto simp: score_sum_def)

section \<open>What a successful call changes\<close>

lemma word_less_inc: "(w::uint256) \<noteq> - 1 \<Longrightarrow> w < w + 1"
  using inc_less_eq_self_iff_eq [of w] by (simp add: not_le)

lemma checked_inc256_Inr: "checked_inc256 w = Inr v \<Longrightarrow> w < v \<and> v = w + 1"
  by (auto simp: checked_inc256_def word_less_inc split: if_splits)

lemma submitEncryptedProfile_Inr:
  assumes "submitEncryptedProfile s ts a b c d = Inr (s', ev)"
  shows "profileCount s < profileCount s'"
    and "ev = [ProfileSubmitted (profileCount s') ts]"
    and "recommendationCount s' = recommendationCount s"
    and "decryptedResults s' = decryptedResults s"
    and "encryptedRecommendations s' = encryptedRecommendations s"
    and "requestToProfileId s' = requestToProfileId s"
    and "recommendationRequestToId s' = recommendationRequestToId s"
    and "\<And>i. i \<noteq> profileCount s' \<Longrightarrow> encryptedProfiles s' i = encryptedProfiles s i"
  using assms
  by (auto simp: submitEncryptedProfile_def split: sum.splits dest!: checked_inc256_Inr)

lemma requestFinancialRecommendation_Inr:
  assumes "requestFinancialRecommendation lib s reqId pid = Inr (s', ev)"
  shows "profileCount s' = profileCount s"
    and "recommendationCount s' = recommendationCount s"
    and "decryptedResults s' = decryptedResults s"
    and "encryptedRecommendations s' = encryptedRecommendations s"
    and "encryptedProfiles s' = encryptedProfiles s"
    and "requestToProfileId s' = (requestToProfileId s)(reqId := pid)"
    and "recommendationRequestToId s' = recommendationRequestToId s"
    and "submitted_ids ev = []" and "generated_ids ev = []"
    and "requestDecryption_returns lib
           [encryptedIncome (encryptedProfiles s pid), encryptedAssets (encryptedProfiles s pid),
            encryptedRiskTolerance (encryptedProfiles s pid),
            encryptedGoals (encryptedProfiles s pid)] generateRecommendation_selector"
  using assms
  by (auto simp: requestFinancialRecommendation_def Let_def split: if_splits)

lemma generateRecommendation_Inr:
  assumes "generateRecommendation lib s ts r c p = Inr (s', ev)"
  shows "profileCount s' = profileCount s"
    and "recommendationCount s < recommendationCount s'"
    and "ev = [RecommendationGenerated (recommendationCount s')]"
    and "encryptedProfiles s' = encryptedProfiles s"
    and "requestToProfileId s' = requestToProfileId s"
    and "recommendationRequestToId s' = recommendationRequestToId s"
    and "requestToProfileId s r \<noteq> 0"
    and "checkSignatures lib r c p"
    and "\<And>i. i \<noteq> recommendationCount s' \<Longrightarrow> decryptedResults s' i = decryptedResults s i"
    and "\<And>i. i \<noteq> recommendationCount s' \<Longrightarrow>
           encryptedRecommendations s' i = encryptedRecommendations s i"
    and "\<not> isRevealed (decryptedResults s' (recommendationCount s'))"
  using assms
  by (auto simp: generateRecommendation_def Let_def
           split: sum.splits option.splits if_splits prod.splits dest!: checked_inc256_Inr)

lemma requestRecommendationDecryption_Inr:
  assumes "requestRecommendationDecryption lib s reqId recId = Inr (s', ev)"
  shows "profileCount s' = profileCount s"
    and "recommendationCount s' = recommendationCount s"
    and "decryptedResults s' = decryptedResults s"
    and "encryptedRecommendations s' = encryptedRecommendations s"
    and "encryptedProfiles s' = encryptedProfiles s"
    and "requestToProfileId s' = requestToProfileId s"
    and "recommendationRequestToId s' = (recommendationRequestToId s)(reqId := recId)"
    and "\<not> isRevealed (decryptedResults s recId)"
    and "submitted_ids ev = []" and "generated_ids ev = []"
    and "requestDecryption_returns lib
           [encryptedProductId (encryptedRecommendations s recId),
            encryptedMatchScore (encryptedRecommendations s recId)]
           decryptRecommendation_selector"
  using assms
  by (auto simp: requestRecommendationDecryption_def Let_def split: if_splits)

lemma decryptRecommendation_Inr:
  assumes "decryptRecommendation lib s r c p = Inr (s', ev)"
  shows "profileCount s' = profileCount s"
    and "recommendationCount s' = recommendationCount s"
    and "encryptedRecommendations s' = encryptedRecommendations s"
    and "encryptedProfiles s' = encryptedProfiles s"
    and "requestToProfileId s' = requestToProfileId s"
    and "recommendationRequestToId s' = recommendationRequestToId s"
    and "recommendationRequestToId s r \<noteq> 0"
    and "\<not> isRevealed (decryptedResults s (recommendationRequestToId s r))"
    and "isRevealed (decryptedResults s' (recommendationRequestToId s r))"
    and "\<And>i. i \<noteq> recommendationRequestToId s r \<Longrightarrow> decryptedResults s' i = decryptedResults s i"
    and "submitted_ids ev = []" and "generated_ids ev = []"
  using assms
  by (auto simp: decryptRecommendation_def Let_def split: if_splits option.splits)

section \<open>Sequences of calls\<close>

lemma exec_cases:
  assumes "exec lib s c = (s', ev)"
  shows "(s' = s \<and> ev = []) \<or> call_result lib s c = Inr (s', ev)"
  using assms by (auto simp: exec_def split: sum.splits)

lemma exec_reverted: "call_result lib s c = Inl e \<Longrightarrow> exec lib s c = (s, [])"
  by (simp add: exec_def)

lemma fst_run_Cons: "fst (run lib s (c # cs)) = fst (run lib (fst (exec lib s c)) cs)"
  by (simp split: prod.splits)

lemma snd_run_Cons:
  "snd (run lib s (c # cs)) = snd (exec lib s c) @ snd (run lib (fst (exec lib s c)) cs)"
  by (simp split: prod.splits)

lemma run_invariant:
  assumes "P s" and "\<And>t c. P t \<Longrightarrow> P (fst (exec lib t c))"
  shows "P (fst (run lib s cs))"
  using assms(1)
proof (induction cs arbitrary: s)
  case Nil
  then show ?case by simp
next
  case (Cons c cs)
  from Cons.prems have "P (fst (exec lib s c))" by (rule assms(2))
  then have "P (fst (run lib (fst (exec lib s c)) cs))" by (rule Cons.IH)
  then show ?case by (simp only: fst_run_Cons)
qed

lemma Inr_projr: "\<not> isl x \<Longrightarrow> x = Inr (fst (projr x), snd (projr x))"
  by (cases x) simp_all

lemma checked_inc256_Inl: "checked_inc256 w = Inl e \<Longrightarrow> e = ArithmeticOverflow"
  by (simp add: checked_inc256_def split: if_splits)

lemma compute_Inl: "compute i a r g = Inl e \<Longrightarrow> e = ArithmeticOverflow"
proof (cases "score_sum i a r g < 2 ^ 32")
  case True
  from calculateMatchScore_ok [OF True] show "compute i a r g = Inl e \<Longrightarrow> ?thesis"
    by (auto simp: compute_def)
next
  case False
  then have "2 ^ 32 \<le> score_sum i a r g" by simp
  from calculateMatchScore_overflow [OF this] show "compute i a r g = Inl e \<Longrightarrow> ?thesis"
    by (simp add: compute_def)
qed

lemma generateRecommendation_InvalidRequest:
  assumes "generateRecommendation lib s ts r c p = Inl InvalidRequest"
  shows "requestToProfileId s r = 0"
  using assms
  by (auto simp: generateRecommendation_def Let_def
        split: if_splits option.splits sum.splits prod.splits
        dest: checked_inc256_Inl compute_Inl)

lemma submitted_ids_append: "submitted_ids (xs @ ys) = submitted_ids xs @ submitted_ids ys"
  by (induction xs rule: submitted_ids.induct) simp_all

lemma generated_ids_append: "generated_ids (xs @ ys) = generated_ids xs @ generated_ids ys"
  by (induction xs rule: generated_ids.induct) simp_all

lemma exec_counts:
  assumes "exec lib s c = (s', ev)"
  shows "(submitted_ids ev = [] \<and> profileCount s' = profileCount s)
           \<or> (submitted_ids ev = [profileCount s'] \<and> profileCount s < profileCount s')"
    and "(generated_ids ev = [] \<and> recommendationCount s' = recommendationCount s)
           \<or> (generated_ids ev = [recommendationCount s']
               \<and> recommendationCount s < recommendationCount s')"
proof -
  from exec_cases [OF assms]
  have "((submitted_ids ev = [] \<and> profileCount s' = profileCount s)
           \<or> (submitted_ids ev = [profileCount s'] \<and> profileCount s < profileCount s'))
        \<and> ((generated_ids ev = [] \<and> recommendationCount s' = recommendationCount s)
           \<or> (generated_ids ev = [recommendationCount s']
               \<and> recommendationCount s < recommendationCount s'))"
  proof
    assume "s' = s \<and> ev = []"
    then show ?thesis by simp
  next
    assume ok: "call_result lib s c = Inr (s', ev)"
    show ?thesis
    proof (cases c)
      case (Submit ts a b c d)
      with ok have "submitEncryptedProfile s ts a b c d = Inr (s', ev)" by simp
      from submitEncryptedProfile_Inr(1,2,3) [OF this] show ?thesis by simp
    next
      case (RequestRecommendation reqId pid)
      with ok have "requestFinancialRecommendation lib s reqId pid = Inr (s', ev)" by simp
      from requestFinancialRecommendation_Inr(1,2,8,9) [OF this] show ?thesis by simp
    next
      case (GenerateRecommendation ts r cl p)
      with ok have "generateRecommendation lib s ts r cl p = Inr (s', ev)" by simp
      from generateRecommendation_Inr(1,2,3) [OF this] show ?thesis by simp
    next
      case (RequestDecryptionOf reqId recId)
      with ok have "requestRecommendationDecryption lib s reqId recId = Inr (s', ev)" by simp
      from requestRecommendationDecryption_Inr(1,2,9,10) [OF this] show ?thesis by simp
    next
      case (DecryptRecommendation r cl p)
      with ok have "decryptRecommendation lib s r cl p = Inr (s', ev)" by simp
      from decryptRecommendation_Inr(1,2,11,12) [OF this] show ?thesis by simp
    qed
  qed
  then show "(submitted_ids ev = [] \<and> profileCount s' = profileCount s)
           \<or> (submitted_ids ev = [profileCount s'] \<and> profileCount s < profileCount s')"
    and "(generated_ids ev = [] \<and> recommendationCount s' = recommendationCount s)
           \<or> (generated_ids ev = [recommendationCount s']
               \<and> recommendationCount s < recommendationCount s')"
    by simp_all
qed

section \<open>The scenarios, evaluated\<close>

lemmas eval_defs = exec_def submitEncryptedProfile_def checked_inc256_def
  requestFinancialRecommendation_def init_state_def generateRecommendation_def test_lib_def
  decode_uint32_def compute_def determineProductId_def calculateMatchScore_def
  checked_add32_def checked_mul32_def requestRecommendationDecryption_def
  decryptRecommendation_def

lemma s_pending_fields:
  "profileCount s_pending = 1" "recommendationCount s_pending = 0"
  "requestToProfileId s_pending = (\<lambda>_. 0)(7 := 1)"
  "recommendationRequestToId s_pending = (\<lambda>_. 0)"
  "decryptedResults s_pending = (\<lambda>_. \<lparr> productId = 0, matchScore = 0, isRevealed = False \<rparr>)"
  by (simp_all add: s_pending_def s_submitted_def eval_defs)

lemma s_generated_fields:
  "profileCount s_generated = 1" "recommendationCount s_generated = 1"
  "requestToProfileId s_generated = (\<lambda>_. 0)(7 := 1)"
  "recommendationRequestToId s_generated = (\<lambda>_. 0)"
  "decryptedResults s_generated = (\<lambda>_. \<lparr> productId = 0, matchScore = 0, isRevealed = False \<rparr>)
      (1 := \<lparr> productId = 3, matchScore = 100, isRevealed = False \<rparr>)"
  "encryptedRecommendations s_generated 1 = \<lparr> recommendationId = 1, encryptedProductId = 3,
        encryptedMatchScore = 100, ofProfileId = 1, generatedAt = 1001 \<rparr>"
  by (simp_all add: s_generated_def s_pending_fields generateRecommendation_def test_lib_def exec_def
     decode_uint32_def compute_def determineProductId_def calculateMatchScore_def
  checked_add32_def checked_mul32_def checked_inc256_def)

lemma s_reveal_pending_fields:
  "profileCount s_reveal_pending = 1" "recommendationCount s_reveal_pending = 1"
  "requestToProfileId s_reveal_pending = (\<lambda>_. 0)(7 := 1)"
  "recommendationRequestToId s_reveal_pending = (\<lambda>_. 0)(8 := 1, 9 := 1)"
  "decryptedResults s_reveal_pending = (\<lambda>_. \<lparr> productId = 0, matchScore = 0, isRevealed = False \<rparr>)
      (1 := \<lparr> productId = 3, matchScore = 100, isRevealed = False \<rparr>)"
  by (simp_all add: s_reveal_pending_def s_generated_fields exec_def
        requestRecommendationDecryption_def test_lib_def)

lemma s_revealed_fields:
  "profileCount s_revealed = 1" "recommendationCount s_revealed = 1"
  "requestToProfileId s_revealed = (\<lambda>_. 0)(7 := 1)"
  "recommendationRequestToId s_revealed = (\<lambda>_. 0)(8 := 1, 9 := 1)"
  "decryptedResults s_revealed = (\<lambda>_. \<lparr> productId = 0, matchScore = 0, isRevealed = False \<rparr>)
      (1 := \<lparr> productId = 3, matchScore = 100, isRevealed = True \<rparr>)"
  by (simp_all add: s_revealed_def s_reveal_pending_fields exec_def decryptRecommendation_def test_lib_def decode_uint32_def)

lemma step_generate:
  "generateRecommendation test_lib s_pending 1001 7 [50000, 600000, 80, 1] [1] =
     Inr (s_generated, [RecommendationGenerated 1])"
  by (simp add: s_generated_def exec_def s_pending_fields generateRecommendation_def
        test_lib_def decode_uint32_def compute_def determineProductId_def
        calculateMatchScore_def checked_add32_def checked_mul32_def checked_inc256_def)

lemma step_reveal:
  "decryptRecommendation test_lib s_reveal_pending 8 [3, 100] [1] =
     Inr (s_revealed, [ResultDecrypted 1])"
  by (simp add: s_revealed_def exec_def s_reveal_pending_fields decryptRecommendation_def
        test_lib_def decode_uint32_def)

section \<open>Identifiers\<close>

lemma submitted_ids_increasing:
  "sorted_wrt (<) (profileCount s # submitted_ids (snd (run lib s cs)))"
proof (induction cs arbitrary: s)
  case Nil
  show ?case by simp
next
  case (Cons c cs)
  obtain s' ev where ex: "exec lib s c = (s', ev)" by (cases "exec lib s c")
  have run: "submitted_ids (snd (run lib s (c # cs)))
               = submitted_ids ev @ submitted_ids (snd (run lib s' cs))"
    by (simp add: snd_run_Cons ex submitted_ids_append del: run.simps)
  note IH = Cons.IH [of s']
  from exec_counts(1) [OF ex] show ?case
  proof
    assume "submitted_ids ev = [] \<and> profileCount s' = profileCount s"
    with IH run show ?thesis by simp
  next
    assume "submitted_ids ev = [profileCount s'] \<and> profileCount s < profileCount s'"
    with IH run show ?thesis by auto
  qed
qed

lemma generated_ids_increasing:
  "sorted_wrt (<) (recommendationCount s # generated_ids (snd (run lib s cs)))"
proof (induction cs arbitrary: s)
  case Nil
  show ?case by simp
next
  case (Cons c cs)
  obtain s' ev where ex: "exec lib s c = (s', ev)" by (cases "exec lib s c")
  have run: "generated_ids (snd (run lib s (c # cs)))
               = generated_ids ev @ generated_ids (snd (run lib s' cs))"
    by (simp add: snd_run_Cons ex generated_ids_append del: run.simps)
  note IH = Cons.IH [of s']
  from exec_counts(2) [OF ex] show ?case
  proof
    assume "generated_ids ev = [] \<and> recommendationCount s' = recommendationCount s"
    with IH run show ?thesis by simp
  next
    assume "generated_ids ev = [recommendationCount s']
              \<and> recommendationCount s < recommendationCount s'"
    with IH run show ?thesis by auto
  qed
qed

lemma counts_never_decrease:
  "profileCount s \<le> profileCount (fst (run lib s cs))
   \<and> recommendationCount s \<le> recommendationCount (fst (run lib s cs))"
proof (induction cs arbitrary: s)
  case Nil
  show ?case by simp
next
  case (Cons c cs)
  obtain s' ev where ex: "exec lib s c = (s', ev)" by (cases "exec lib s c")
  from exec_counts [OF ex] have "profileCount s \<le> profileCount s'"
    "recommendationCount s \<le> recommendationCount s'" by auto
  with Cons.IH [of s'] ex show ?case by (auto simp: fst_run_Cons simp del: run.simps)
qed

text \<open>
  Claim C6. \<^verbatim>\<open>submitEncryptedProfile\<close> returns nothing; the identifier it assigns is
  the one it stores and announces in \<^verbatim>\<open>ProfileSubmitted\<close>, and likewise for
  \<^verbatim>\<open>RecommendationGenerated\<close>. For every sequence of calls from any state, the
  profile identifiers announced are strictly increasing (in the unsigned order of
  \<^verbatim>\<open>uint256\<close>), all above the counter the sequence started with, and so never
  reused; the same holds for the recommendation identifiers assigned by successful
  \<^verbatim>\<open>generateRecommendation\<close> callbacks; and neither counter ever decreases.
\<close>

theorem ids_strictly_increasing:
  "sorted_wrt (<) (profileCount s # submitted_ids (snd (run lib s cs)))
   \<and> sorted_wrt (<) (recommendationCount s # generated_ids (snd (run lib s cs)))
   \<and> distinct (submitted_ids (snd (run lib s cs)))
   \<and> distinct (generated_ids (snd (run lib s cs)))
   \<and> profileCount s \<le> profileCount (fst (run lib s cs))
   \<and> recommendationCount s \<le> recommendationCount (fst (run lib s cs))"
proof -
  note a = submitted_ids_increasing [of s lib cs]
  note b = generated_ids_increasing [of s lib cs]
  from a b have "sorted_wrt (<) (submitted_ids (snd (run lib s cs)))"
    "sorted_wrt (<) (generated_ids (snd (run lib s cs)))" by simp_all
  then have "distinct (submitted_ids (snd (run lib s cs)))"
    "distinct (generated_ids (snd (run lib s cs)))"
    by (simp_all add: strict_sorted_iff)
  with a b counts_never_decrease [of s lib cs] show ?thesis by simp
qed

section \<open>The reveal flag\<close>

lemma exec_keeps_revealed:
  assumes ex: "exec lib s c = (s', ev)"
    and i: "i \<le> recommendationCount s"
    and rev: "isRevealed (decryptedResults s i)"
  shows "isRevealed (decryptedResults s' i)"
  using exec_cases [OF ex]
proof
  assume "s' = s \<and> ev = []"
  with rev show ?thesis by simp
next
  assume ok: "call_result lib s c = Inr (s', ev)"
  show ?thesis
  proof (cases c)
    case (Submit ts a b c d)
    with ok have "submitEncryptedProfile s ts a b c d = Inr (s', ev)" by simp
    from submitEncryptedProfile_Inr(4) [OF this] rev show ?thesis by simp
  next
    case (RequestRecommendation reqId pid)
    with ok have "requestFinancialRecommendation lib s reqId pid = Inr (s', ev)" by simp
    from requestFinancialRecommendation_Inr(3) [OF this] rev show ?thesis by simp
  next
    case (GenerateRecommendation ts r cl p)
    with ok have gen: "generateRecommendation lib s ts r cl p = Inr (s', ev)" by simp
    from generateRecommendation_Inr(2) [OF gen] i have "i \<noteq> recommendationCount s'" by auto
    from generateRecommendation_Inr(9) [OF gen this] rev show ?thesis by simp
  next
    case (RequestDecryptionOf reqId recId)
    with ok have "requestRecommendationDecryption lib s reqId recId = Inr (s', ev)" by simp
    from requestRecommendationDecryption_Inr(3) [OF this] rev show ?thesis by simp
  next
    case (DecryptRecommendation r cl p)
    with ok have dec: "decryptRecommendation lib s r cl p = Inr (s', ev)" by simp
    show ?thesis
    proof (cases "i = recommendationRequestToId s r")
      case True
      with decryptRecommendation_Inr(9) [OF dec] show ?thesis by simp
    next
      case False
      from decryptRecommendation_Inr(10) [OF dec False] rev show ?thesis by simp
    qed
  qed
qed

lemma trace_Cons: "\<exists>ts. trace lib s cs = s # ts"
  by (cases cs) simp_all

lemma revealed_stays:
  "i \<le> recommendationCount s \<Longrightarrow> isRevealed (decryptedResults s i) \<Longrightarrow>
     map (\<lambda>t. isRevealed (decryptedResults t i)) (trace lib s cs)
       = replicate (Suc (length cs)) True"
proof (induction cs arbitrary: s)
  case Nil
  then show ?case by simp
next
  case (Cons c cs)
  obtain s' ev where ex: "exec lib s c = (s', ev)" by (cases "exec lib s c")
  from exec_counts(2) [OF ex] Cons.prems(1) have i': "i \<le> recommendationCount s'" by auto
  from exec_keeps_revealed [OF ex Cons.prems] have "isRevealed (decryptedResults s' i)" .
  from Cons.IH [OF i' this] Cons.prems(2) ex show ?case by simp
qed

lemma revealed_once:
  "i \<le> recommendationCount s \<Longrightarrow>
     \<exists>n m. map (\<lambda>t. isRevealed (decryptedResults t i)) (trace lib s cs)
       = replicate n False @ replicate m True"
proof (induction cs arbitrary: s)
  case Nil
  show ?case
  proof (cases "isRevealed (decryptedResults s i)")
    case True
    then have "map (\<lambda>t. isRevealed (decryptedResults t i)) (trace lib s [])
       = replicate 0 False @ replicate 1 True" by simp
    then show ?thesis by blast
  next
    case False
    then have "map (\<lambda>t. isRevealed (decryptedResults t i)) (trace lib s [])
       = replicate 1 False @ replicate 0 True" by simp
    then show ?thesis by blast
  qed
next
  case (Cons c cs)
  show ?case
  proof (cases "isRevealed (decryptedResults s i)")
    case True
    from revealed_stays [OF Cons.prems True, of lib "c # cs"]
    have "map (\<lambda>t. isRevealed (decryptedResults t i)) (trace lib s (c # cs))
       = replicate 0 False @ replicate (Suc (length (c # cs))) True" by simp
    then show ?thesis by blast
  next
    case False
    obtain s' ev where ex: "exec lib s c = (s', ev)" by (cases "exec lib s c")
    from exec_counts(2) [OF ex] Cons.prems have i': "i \<le> recommendationCount s'" by auto
    from Cons.IH [OF i'] obtain n m where
      "map (\<lambda>t. isRevealed (decryptedResults t i)) (trace lib s' cs)
         = replicate n False @ replicate m True" by blast
    with False ex
    have "map (\<lambda>t. isRevealed (decryptedResults t i)) (trace lib s (c # cs))
       = replicate (Suc n) False @ replicate m True" by simp
    then show ?thesis by blast
  qed
qed

text \<open>
  Claim C5. For every recommendation (an identifier up to \<^verbatim>\<open>recommendationCount\<close>)
  and every sequence of calls, the values of its \<^verbatim>\<open>isRevealed\<close> along the states
  of the run are some number of \<open>False\<close> followed by some number of \<open>True\<close>: the
  flag goes from false to true at most once and is never reset. A
  \<^verbatim>\<open>requestRecommendationDecryption\<close> for a revealed result fails with
  "Already decrypted", and a \<^verbatim>\<open>decryptRecommendation\<close> callback whose request
  points to a revealed result is rejected (with "Already decrypted", or with
  "Invalid request" when the request is unknown).
\<close>

theorem isRevealed_monotonic:
  "(i \<le> recommendationCount s \<longrightarrow>
      (\<exists>n m. map (\<lambda>t. isRevealed (decryptedResults t i)) (trace lib s cs)
         = replicate n False @ replicate m True))
   \<and> (isRevealed (decryptedResults s i) \<longrightarrow>
      requestRecommendationDecryption lib s reqId i = Inl AlreadyDecrypted)
   \<and> (isRevealed (decryptedResults s (recommendationRequestToId s reqId)) \<longrightarrow>
      decryptRecommendation lib s reqId c p =
        Inl (if recommendationRequestToId s reqId = 0 then InvalidRequest
             else AlreadyDecrypted))"
  using revealed_once [of i s lib cs]
  by (simp add: requestRecommendationDecryption_def decryptRecommendation_def Let_def)

theorem isRevealed_monotonic_witness:
  "1 \<le> recommendationCount s_reveal_pending
   \<and> (\<exists>n m. map (\<lambda>t. isRevealed (decryptedResults t 1)) (trace test_lib s_reveal_pending
        [DecryptRecommendation 8 [3, 100] [1], RequestDecryptionOf 10 1,
         DecryptRecommendation 9 [3, 100] [1]]) = replicate n False @ replicate m True)
   \<and> map (\<lambda>t. isRevealed (decryptedResults t 1)) (trace test_lib s_reveal_pending
        [DecryptRecommendation 8 [3, 100] [1], RequestDecryptionOf 10 1,
         DecryptRecommendation 9 [3, 100] [1]]) = [False, True, True, True]
   \<and> isRevealed (decryptedResults s_revealed 1)
   \<and> requestRecommendationDecryption test_lib s_revealed 10 1 = Inl AlreadyDecrypted
   \<and> isRevealed (decryptedResults s_revealed (recommendationRequestToId s_revealed 9))
   \<and> decryptRecommendation test_lib s_revealed 9 [3, 100] [1] = Inl AlreadyDecrypted"
proof -
  have a: "1 \<le> recommendationCount s_reveal_pending"
    by (simp add: s_reveal_pending_fields)
  have c: "map (\<lambda>t. isRevealed (decryptedResults t 1)) (trace test_lib s_reveal_pending
        [DecryptRecommendation 8 [3, 100] [1], RequestDecryptionOf 10 1,
         DecryptRecommendation 9 [3, 100] [1]]) = [False, True, True, True]"
    by (simp add: s_reveal_pending_fields exec_def decryptRecommendation_def test_lib_def
          decode_uint32_def requestRecommendationDecryption_def)
  have b: "isRevealed (decryptedResults s_revealed 1)"
    "recommendationRequestToId s_revealed 9 = 1"
    by (simp_all add: s_revealed_fields)
  from a isRevealed_monotonic [of 1 s_reveal_pending test_lib
        "[DecryptRecommendation 8 [3, 100] [1], RequestDecryptionOf 10 1,
         DecryptRecommendation 9 [3, 100] [1]]"]
  have 1: "\<exists>n m. map (\<lambda>t. isRevealed (decryptedResults t 1)) (trace test_lib s_reveal_pending
        [DecryptRecommendation 8 [3, 100] [1], RequestDecryptionOf 10 1,
         DecryptRecommendation 9 [3, 100] [1]]) = replicate n False @ replicate m True"
    by blast
  from b isRevealed_monotonic [of 1 s_revealed test_lib _ 10]
  have 2: "requestRecommendationDecryption test_lib s_revealed 10 1 = Inl AlreadyDecrypted" by blast
  from b isRevealed_monotonic [of _ s_revealed test_lib _ 9 "[3, 100]" "[1]"]
  have 3: "decryptRecommendation test_lib s_revealed 9 [3, 100] [1] = Inl AlreadyDecrypted"
    by simp
  from a b c 1 2 3 show ?thesis by simp
qed

section \<open>Callbacks\<close>

lemma generateRecommendation_replay_keeps:
  assumes first: "generateRecommendation lib s ts r c p = Inr (s1, ev1)"
  shows "encryptedRecommendations (fst (exec lib s1 (GenerateRecommendation ts' r' c' p')))
            (recommendationCount s1) = encryptedRecommendations s1 (recommendationCount s1)"
    and "decryptedResults (fst (exec lib s1 (GenerateRecommendation ts' r' c' p')))
            (recommendationCount s1) = decryptedResults s1 (recommendationCount s1)"
proof -
  obtain s2 ev2 where ex: "exec lib s1 (GenerateRecommendation ts' r' c' p') = (s2, ev2)"
    by (cases "exec lib s1 (GenerateRecommendation ts' r' c' p')")
  have "encryptedRecommendations s2 (recommendationCount s1)
          = encryptedRecommendations s1 (recommendationCount s1)
        \<and> decryptedResults s2 (recommendationCount s1)
          = decryptedResults s1 (recommendationCount s1)"
    using exec_cases [OF ex]
  proof
    assume "s2 = s1 \<and> ev2 = []"
    then show ?thesis by simp
  next
    assume "call_result lib s1 (GenerateRecommendation ts' r' c' p') = Inr (s2, ev2)"
    then have second: "generateRecommendation lib s1 ts' r' c' p' = Inr (s2, ev2)" by simp
    from generateRecommendation_Inr(2) [OF second]
    have "recommendationCount s1 \<noteq> recommendationCount s2" by simp
    with generateRecommendation_Inr(9,10) [OF second] show ?thesis by simp
  qed
  with ex show
    "encryptedRecommendations (fst (exec lib s1 (GenerateRecommendation ts' r' c' p')))
            (recommendationCount s1) = encryptedRecommendations s1 (recommendationCount s1)"
    "decryptedResults (fst (exec lib s1 (GenerateRecommendation ts' r' c' p')))
            (recommendationCount s1) = decryptedResults s1 (recommendationCount s1)"
    by simp_all
qed

text \<open>
  Claim C1, as the code has it. The claim says that an accepted callback consumes the
  pending entry and that a second delivery with the same request id fails with
  UnknownRequest, all stored state unchanged. No function of the contract ever clears
  \<^verbatim>\<open>requestToProfileId\<close> or \<^verbatim>\<open>recommendationRequestToId\<close>: in the scenario
  the callback of request 7 is delivered a second time, it is accepted again, and
  \<^verbatim>\<open>recommendationCount\<close> goes from 1 to 2.
\<close>

theorem callback_replay_counterexample:
  "\<not> isl (generateRecommendation test_lib s_generated 1002 7 [50000, 600000, 80, 1] [1])
   \<and> recommendationCount s_generated = 1
   \<and> recommendationCount (fst (exec test_lib s_generated
        (GenerateRecommendation 1002 7 [50000, 600000, 80, 1] [1]))) = 2"
  by (simp add: s_generated_fields generateRecommendation_def test_lib_def exec_def
        decode_uint32_def compute_def determineProductId_def calculateMatchScore_def
        checked_add32_def checked_mul32_def checked_inc256_def)

text \<open>
  Claim C1, amended. A callback whose request id has no pending entry (the mapping reads
  0) fails with "Invalid request" and leaves the state unchanged. An accepted callback
  does not consume the pending entry: after an accepted \<^verbatim>\<open>generateRecommendation\<close>
  the entry still maps to the profile and a second delivery is not rejected as unknown;
  whatever the second delivery does, the recommendation and the result stored by the first
  are unchanged. After an accepted \<^verbatim>\<open>decryptRecommendation\<close> the entry is kept as
  well, and a second delivery fails with "Already decrypted", the state unchanged.
\<close>

theorem callback_replay:
  "(requestToProfileId s r = 0 \<longrightarrow>
      generateRecommendation lib s ts r c p = Inl InvalidRequest
      \<and> exec lib s (GenerateRecommendation ts r c p) = (s, []))
   \<and> (recommendationRequestToId s r = 0 \<longrightarrow>
      decryptRecommendation lib s r c p = Inl InvalidRequest
      \<and> exec lib s (DecryptRecommendation r c p) = (s, []))
   \<and> (generateRecommendation lib s ts r c p = Inr (s1, ev1) \<longrightarrow>
      requestToProfileId s1 r = requestToProfileId s r \<and> requestToProfileId s1 r \<noteq> 0
      \<and> generateRecommendation lib s1 ts' r c' p' \<noteq> Inl InvalidRequest
      \<and> encryptedRecommendations (fst (exec lib s1 (GenerateRecommendation ts' r c' p')))
            (recommendationCount s1) = encryptedRecommendations s1 (recommendationCount s1)
      \<and> decryptedResults (fst (exec lib s1 (GenerateRecommendation ts' r c' p')))
            (recommendationCount s1) = decryptedResults s1 (recommendationCount s1))
   \<and> (decryptRecommendation lib s r c p = Inr (s1, ev1) \<longrightarrow>
      recommendationRequestToId s1 r = recommendationRequestToId s r
      \<and> decryptRecommendation lib s1 r c' p' = Inl AlreadyDecrypted
      \<and> exec lib s1 (DecryptRecommendation r c' p') = (s1, []))"
proof (intro conjI impI)
  assume "requestToProfileId s r = 0"
  then show "generateRecommendation lib s ts r c p = Inl InvalidRequest"
    by (simp add: generateRecommendation_def)
  then show "exec lib s (GenerateRecommendation ts r c p) = (s, [])"
    by (simp add: exec_def)
next
  assume "recommendationRequestToId s r = 0"
  then show "decryptRecommendation lib s r c p = Inl InvalidRequest"
    by (simp add: decryptRecommendation_def)
  then show "exec lib s (DecryptRecommendation r c p) = (s, [])"
    by (simp add: exec_def)
next
  assume first: "generateRecommendation lib s ts r c p = Inr (s1, ev1)"
  from generateRecommendation_Inr(5,7) [OF first]
  show kept: "requestToProfileId s1 r = requestToProfileId s r"
    and live: "requestToProfileId s1 r \<noteq> 0" by simp_all
  from live show "generateRecommendation lib s1 ts' r c' p' \<noteq> Inl InvalidRequest"
    by (auto dest: generateRecommendation_InvalidRequest)
  from generateRecommendation_replay_keeps [OF first]
  show "encryptedRecommendations (fst (exec lib s1 (GenerateRecommendation ts' r c' p')))
            (recommendationCount s1) = encryptedRecommendations s1 (recommendationCount s1)"
    and "decryptedResults (fst (exec lib s1 (GenerateRecommendation ts' r c' p')))
            (recommendationCount s1) = decryptedResults s1 (recommendationCount s1)"
    by simp_all
next
  assume first: "decryptRecommendation lib s r c p = Inr (s1, ev1)"
  from decryptRecommendation_Inr(6) [OF first]
  show same: "recommendationRequestToId s1 r = recommendationRequestToId s r" by simp
  with decryptRecommendation_Inr(7,9) [OF first]
  show "decryptRecommendation lib s1 r c' p' = Inl AlreadyDecrypted"
    by (simp add: decryptRecommendation_def)
  then show "exec lib s1 (DecryptRecommendation r c' p') = (s1, [])"
    by (simp add: exec_def)
qed

theorem callback_replay_witness:
  "requestToProfileId init_state 7 = 0
   \<and> generateRecommendation test_lib init_state 1001 7 [50000, 600000, 80, 1] [1]
        = Inl InvalidRequest
   \<and> recommendationRequestToId s_generated 8 = 0
   \<and> decryptRecommendation test_lib s_generated 8 [3, 100] [1] = Inl InvalidRequest
   \<and> generateRecommendation test_lib s_pending 1001 7 [50000, 600000, 80, 1] [1]
        = Inr (s_generated, [RecommendationGenerated 1])
   \<and> requestToProfileId s_generated 7 \<noteq> 0
   \<and> decryptedResults (fst (exec test_lib s_generated
         (GenerateRecommendation 1002 7 [50000, 600000, 80, 1] [1]))) 1
        = decryptedResults s_generated 1
   \<and> decryptRecommendation test_lib s_reveal_pending 8 [3, 100] [1]
        = Inr (s_revealed, [ResultDecrypted 1])
   \<and> decryptRecommendation test_lib s_revealed 8 [3, 100] [1] = Inl AlreadyDecrypted"
proof -
  have a: "requestToProfileId init_state 7 = 0" by (simp add: init_state_def)
  have b: "recommendationRequestToId s_generated 8 = 0" by (simp add: s_generated_fields)
  have n: "recommendationCount s_generated = 1" by (simp add: s_generated_fields)
  from a callback_replay [of init_state 7 test_lib 1001 "[50000, 600000, 80, 1]" "[1]"]
  have 1: "generateRecommendation test_lib init_state 1001 7 [50000, 600000, 80, 1] [1]
        = Inl InvalidRequest" by blast
  from b callback_replay [of s_generated 8 test_lib _ "[3, 100]" "[1]"]
  have 2: "decryptRecommendation test_lib s_generated 8 [3, 100] [1] = Inl InvalidRequest"
    by blast
  from step_generate
    callback_replay [of s_pending 7 test_lib 1001 "[50000, 600000, 80, 1]" "[1]"
      s_generated "[RecommendationGenerated 1]" 1002 "[50000, 600000, 80, 1]" "[1]"]
  have 3: "requestToProfileId s_generated 7 \<noteq> 0"
    "decryptedResults (fst (exec test_lib s_generated
         (GenerateRecommendation 1002 7 [50000, 600000, 80, 1] [1]))) (recommendationCount s_generated)
        = decryptedResults s_generated (recommendationCount s_generated)"
    by blast+
  from step_reveal
    callback_replay [of s_reveal_pending 8 test_lib _ "[3, 100]" "[1]"
      s_revealed "[ResultDecrypted 1]" _ "[3, 100]" "[1]"]
  have 4: "decryptRecommendation test_lib s_revealed 8 [3, 100] [1] = Inl AlreadyDecrypted"
    by blast
  from a b 1 2 3 4 step_generate step_reveal show ?thesis by (simp add: n)
qed

text \<open>
  Claim C8, as the code has it. The claim says that a delivery with a live pending entry
  and a failing proof fails with InvalidProof. In \<^verbatim>\<open>decryptRecommendation\<close> the
  check of \<^verbatim>\<open>isRevealed\<close> comes before \<^verbatim>\<open>FHE.checkSignatures\<close>: request 9,
  issued for recommendation 1 and never answered, is delivered with a bad proof after
  request 8 has revealed the result, and the call fails with "Already decrypted".
\<close>

theorem invalid_proof_counterexample:
  "recommendationRequestToId s_revealed 9 = 1
   \<and> \<not> checkSignatures test_lib 9 [3, 100] [2]
   \<and> decryptRecommendation test_lib s_revealed 9 [3, 100] [2] = Inl AlreadyDecrypted"
  by (simp add: s_revealed_fields decryptRecommendation_def test_lib_def)

text \<open>
  Claim C8, amended. A delivery whose request id has a pending entry and whose proof fails
  verification is rejected and all stored state is unchanged (no recommendation created,
  no result written or revealed, the pending entry kept): \<^verbatim>\<open>generateRecommendation\<close>
  fails with InvalidProof; \<^verbatim>\<open>decryptRecommendation\<close> fails with InvalidProof when the
  result is not yet revealed and with "Already decrypted" when it is.
\<close>

theorem invalid_proof_rejected:
  "(requestToProfileId s r \<noteq> 0 \<and> \<not> checkSignatures lib r c p \<longrightarrow>
      generateRecommendation lib s ts r c p = Inl InvalidProof
      \<and> exec lib s (GenerateRecommendation ts r c p) = (s, []))
   \<and> (recommendationRequestToId s r \<noteq> 0 \<and> \<not> checkSignatures lib r c p \<longrightarrow>
      decryptRecommendation lib s r c p =
        Inl (if isRevealed (decryptedResults s (recommendationRequestToId s r))
             then AlreadyDecrypted else InvalidProof)
      \<and> exec lib s (DecryptRecommendation r c p) = (s, []))"
  by (simp add: generateRecommendation_def decryptRecommendation_def exec_def Let_def)

theorem invalid_proof_rejected_witness:
  "requestToProfileId s_pending 7 \<noteq> 0
   \<and> \<not> checkSignatures test_lib 7 [50000, 600000, 80, 1] [2]
   \<and> generateRecommendation test_lib s_pending 1001 7 [50000, 600000, 80, 1] [2]
       = Inl InvalidProof
   \<and> recommendationRequestToId s_reveal_pending 8 \<noteq> 0
   \<and> \<not> checkSignatures test_lib 8 [3, 100] [2]
   \<and> decryptRecommendation test_lib s_reveal_pending 8 [3, 100] [2] = Inl InvalidProof
   \<and> exec test_lib s_reveal_pending (DecryptRecommendation 8 [3, 100] [2])
       = (s_reveal_pending, [])"
proof -
  have a: "requestToProfileId s_pending 7 \<noteq> 0"
    "\<not> checkSignatures test_lib 7 [50000, 600000, 80, 1] [2]"
    by (simp_all add: s_pending_fields test_lib_def)
  have b: "recommendationRequestToId s_reveal_pending 8 \<noteq> 0"
    "\<not> checkSignatures test_lib 8 [3, 100] [2]"
    "\<not> isRevealed (decryptedResults s_reveal_pending (recommendationRequestToId s_reveal_pending 8))"
    by (simp_all add: s_reveal_pending_fields test_lib_def)
  from a invalid_proof_rejected [of s_pending 7 test_lib "[50000, 600000, 80, 1]" "[2]" 1001]
  have 1: "generateRecommendation test_lib s_pending 1001 7 [50000, 600000, 80, 1] [2]
       = Inl InvalidProof" by blast
  from b invalid_proof_rejected [of s_reveal_pending 8 test_lib "[3, 100]" "[2]"]
  have 2: "decryptRecommendation test_lib s_reveal_pending 8 [3, 100] [2] = Inl InvalidProof"
    "exec test_lib s_reveal_pending (DecryptRecommendation 8 [3, 100] [2])
       = (s_reveal_pending, [])"
    by simp_all
  from a b 1 2 show ?thesis by simp
qed

section \<open>Reading a profile\<close>

text \<open>
  Claim C10, as the code has it. The claim says that \<^verbatim>\<open>get\<close> fails with NotFound
  for the id 0 and for an unknown id. \<^verbatim>\<open>getEncryptedProfile\<close> has no
  \<^verbatim>\<open>require\<close>: for id 0 in the initial state, and for id 2 when only profile 1
  exists, it returns the all-zero record.
\<close>

theorem get_unknown_profile_counterexample:
  "getEncryptedProfile init_state 0 = Inr (0, 0, 0, 0, 0)
   \<and> getEncryptedProfile s_pending 2 = Inr (0, 0, 0, 0, 0)"
  by (simp add: getEncryptedProfile_def s_pending_def s_submitted_def eval_defs)

lemma unknown_profiles_zero_step:
  assumes inv: "\<forall>i. i = 0 \<or> profileCount t < i \<longrightarrow> encryptedProfiles t i = zero_profile"
  shows "\<forall>i. i = 0 \<or> profileCount (fst (exec lib t c)) < i \<longrightarrow>
           encryptedProfiles (fst (exec lib t c)) i = zero_profile"
proof (cases "exec lib t c")
  case (Pair t' ev)
  from exec_cases [OF Pair] show ?thesis
  proof
    assume "t' = t \<and> ev = []"
    with Pair inv show ?thesis by simp
  next
    assume ok: "call_result lib t c = Inr (t', ev)"
    have "\<forall>i. i = 0 \<or> profileCount t' < i \<longrightarrow> encryptedProfiles t' i = zero_profile"
    proof (cases c)
      case (Submit ts a b c d)
      with ok have sub: "submitEncryptedProfile t ts a b c d = Inr (t', ev)" by simp
      note lt = submitEncryptedProfile_Inr(1) [OF sub]
      show ?thesis
      proof (intro allI impI)
        fix i assume i: "i = 0 \<or> profileCount t' < i"
        from lt have "profileCount t' \<noteq> 0" by (metis word_not_simps(1))
        with i lt have "i \<noteq> profileCount t'" "i = 0 \<or> profileCount t < i" by auto
        with submitEncryptedProfile_Inr(8) [OF sub] inv
        show "encryptedProfiles t' i = zero_profile" by auto
      qed
    next
      case (RequestRecommendation reqId pid)
      with ok requestFinancialRecommendation_Inr [of lib t reqId pid t' ev] inv
      show ?thesis by simp
    next
      case (GenerateRecommendation ts r cl p)
      with ok generateRecommendation_Inr [of lib t ts r cl p t' ev] inv
      show ?thesis by simp
    next
      case (RequestDecryptionOf reqId recId)
      with ok requestRecommendationDecryption_Inr [of lib t reqId recId t' ev] inv
      show ?thesis by simp
    next
      case (DecryptRecommendation r cl p)
      with ok decryptRecommendation_Inr [of lib t r cl p t' ev] inv
      show ?thesis by simp
    qed
    with Pair show ?thesis by simp
  qed
qed

lemma unknown_profiles_zero:
  "\<forall>i. i = 0 \<or> profileCount (fst (run lib init_state cs)) < i \<longrightarrow>
        encryptedProfiles (fst (run lib init_state cs)) i = zero_profile"
  by (rule run_invariant [where P = "\<lambda>t. \<forall>i. i = 0 \<or> profileCount t < i \<longrightarrow>
        encryptedProfiles t i = zero_profile"])
     (simp add: init_state_def zero_profile_def, rule unknown_profiles_zero_step)

text \<open>
  Claim C10, amended. \<^verbatim>\<open>getEncryptedProfile\<close> never fails; in every state reached
  from the initial one, for the id 0 and for every id above \<^verbatim>\<open>profileCount\<close> (no
  profile was ever stored under it) it returns the default record: four zero handles
  and the timestamp 0.
\<close>

theorem get_never_fails:
  "\<not> isl (getEncryptedProfile s pid)
   \<and> (pid = 0 \<or> profileCount (fst (run lib init_state cs)) < pid \<longrightarrow>
        getEncryptedProfile (fst (run lib init_state cs)) pid = Inr (0, 0, 0, 0, 0))"
  using unknown_profiles_zero [of lib cs]
  by (auto simp: getEncryptedProfile_def zero_profile_def Let_def)

theorem get_never_fails_witness:
  "profileCount (fst (run test_lib init_state [Submit 1000 11 12 13 14])) < 5
   \<and> getEncryptedProfile (fst (run test_lib init_state [Submit 1000 11 12 13 14])) 5
       = Inr (0, 0, 0, 0, 0)"
proof -
  have a: "profileCount (fst (run test_lib init_state [Submit 1000 11 12 13 14])) < 5"
    by (simp add: eval_defs)
  with get_never_fails [of _ 5 test_lib "[Submit 1000 11 12 13 14]"]
  show ?thesis by blast
qed

section \<open>Requests\<close>

text \<open>
  With a library that refuses the zero handles, every recommendation identifier that was
  never assigned keeps its all-zero record and an unrevealed result, and every pending
  reveal request points to an assigned identifier.
\<close>

lemma unknown_recommendations_step:
  assumes deny: "\<not> requestDecryption_returns lib [0, 0] decryptRecommendation_selector"
    and inv: "\<forall>i. i = 0 \<or> recommendationCount t < i \<longrightarrow>
                encryptedRecommendations t i = zero_recommendation
                \<and> \<not> isRevealed (decryptedResults t i)"
    and known: "\<forall>r. recommendationRequestToId t r \<le> recommendationCount t"
  shows "(\<forall>i. i = 0 \<or> recommendationCount (fst (exec lib t c)) < i \<longrightarrow>
                encryptedRecommendations (fst (exec lib t c)) i = zero_recommendation
                \<and> \<not> isRevealed (decryptedResults (fst (exec lib t c)) i))
         \<and> (\<forall>r. recommendationRequestToId (fst (exec lib t c)) r
                \<le> recommendationCount (fst (exec lib t c)))"
proof (cases "exec lib t c")
  case (Pair t' ev)
  from exec_cases [OF Pair]
  have "(\<forall>i. i = 0 \<or> recommendationCount t' < i \<longrightarrow>
                encryptedRecommendations t' i = zero_recommendation
                \<and> \<not> isRevealed (decryptedResults t' i))
         \<and> (\<forall>r. recommendationRequestToId t' r \<le> recommendationCount t')"
  proof
    assume "t' = t \<and> ev = []"
    with inv known show ?thesis by simp
  next
    assume ok: "call_result lib t c = Inr (t', ev)"
    show ?thesis
    proof (cases c)
      case (Submit ts a b c d)
      with ok have sub: "submitEncryptedProfile t ts a b c d = Inr (t', ev)" by simp
      from submitEncryptedProfile_Inr(3,4,5,7) [OF sub] inv known show ?thesis by simp
    next
      case (RequestRecommendation reqId pid)
      with ok have req: "requestFinancialRecommendation lib t reqId pid = Inr (t', ev)" by simp
      from requestFinancialRecommendation_Inr(2,3,4,7) [OF req] inv known
      show ?thesis by simp
    next
      case (GenerateRecommendation ts r cl p)
      with ok have gen: "generateRecommendation lib t ts r cl p = Inr (t', ev)" by simp
      note lt = generateRecommendation_Inr(2) [OF gen]
      have "\<forall>i. i = 0 \<or> recommendationCount t' < i \<longrightarrow>
                encryptedRecommendations t' i = zero_recommendation
                \<and> \<not> isRevealed (decryptedResults t' i)"
      proof (intro allI impI)
        fix i assume i: "i = 0 \<or> recommendationCount t' < i"
        from lt have "recommendationCount t' \<noteq> 0" by (metis word_not_simps(1))
        with i lt have ne: "i \<noteq> recommendationCount t'"
          and old: "i = 0 \<or> recommendationCount t < i" by auto
        from generateRecommendation_Inr(9,10) [OF gen ne] inv old
        show "encryptedRecommendations t' i = zero_recommendation
                \<and> \<not> isRevealed (decryptedResults t' i)" by auto
      qed
      moreover have "\<forall>r. recommendationRequestToId t' r \<le> recommendationCount t'"
      proof
        fix q
        from known have "recommendationRequestToId t q \<le> recommendationCount t" by simp
        with lt generateRecommendation_Inr(6) [OF gen]
        show "recommendationRequestToId t' q \<le> recommendationCount t'" by simp
      qed
      ultimately show ?thesis by simp
    next
      case (RequestDecryptionOf reqId recId)
      with ok have req: "requestRecommendationDecryption lib t reqId recId = Inr (t', ev)"
        by simp
      have "recId \<le> recommendationCount t"
      proof (rule ccontr)
        assume "\<not> recId \<le> recommendationCount t"
        then have "recommendationCount t < recId" by simp
        with inv have "encryptedRecommendations t recId = zero_recommendation" by simp
        with requestRecommendationDecryption_Inr(11) [OF req] deny
        show False by (simp add: zero_recommendation_def)
      qed
      with requestRecommendationDecryption_Inr(2,3,4,7) [OF req] inv known
      show ?thesis by simp
    next
      case (DecryptRecommendation r cl p)
      with ok have dec: "decryptRecommendation lib t r cl p = Inr (t', ev)" by simp
      have "\<forall>i. i = 0 \<or> recommendationCount t' < i \<longrightarrow>
                encryptedRecommendations t' i = zero_recommendation
                \<and> \<not> isRevealed (decryptedResults t' i)"
      proof (intro allI impI)
        fix i assume i: "i = 0 \<or> recommendationCount t' < i"
        with decryptRecommendation_Inr(2) [OF dec]
        have old: "i = 0 \<or> recommendationCount t < i" by simp
        from known have "recommendationRequestToId t r \<le> recommendationCount t" by simp
        with old decryptRecommendation_Inr(7) [OF dec]
        have "i \<noteq> recommendationRequestToId t r" by auto
        from decryptRecommendation_Inr(10) [OF dec this] decryptRecommendation_Inr(3) [OF dec]
          inv old
        show "encryptedRecommendations t' i = zero_recommendation
                \<and> \<not> isRevealed (decryptedResults t' i)" by auto
      qed
      with decryptRecommendation_Inr(2,6) [OF dec] known show ?thesis by simp
    qed
  qed
  with Pair show ?thesis by simp
qed

lemma unknown_recommendations_zero:
  assumes deny: "\<not> requestDecryption_returns lib [0, 0] decryptRecommendation_selector"
  shows "\<forall>i. i = 0 \<or> recommendationCount (fst (run lib init_state cs)) < i \<longrightarrow>
           encryptedRecommendations (fst (run lib init_state cs)) i = zero_recommendation
           \<and> \<not> isRevealed (decryptedResults (fst (run lib init_state cs)) i)"
proof -
  have "(\<forall>i. i = 0 \<or> recommendationCount (fst (run lib init_state cs)) < i \<longrightarrow>
           encryptedRecommendations (fst (run lib init_state cs)) i = zero_recommendation
           \<and> \<not> isRevealed (decryptedResults (fst (run lib init_state cs)) i))
        \<and> (\<forall>r. recommendationRequestToId (fst (run lib init_state cs)) r
              \<le> recommendationCount (fst (run lib init_state cs)))"
  proof (rule run_invariant [where P = "\<lambda>t::state.
        (\<forall>i. i = 0 \<or> recommendationCount t < i \<longrightarrow>
           encryptedRecommendations t i = zero_recommendation
           \<and> \<not> isRevealed (decryptedResults t i))
        \<and> (\<forall>r. recommendationRequestToId t r \<le> recommendationCount t)"])
    show "(\<forall>i. i = 0 \<or> recommendationCount init_state < i \<longrightarrow>
           encryptedRecommendations init_state i = zero_recommendation
           \<and> \<not> isRevealed (decryptedResults init_state i))
        \<and> (\<forall>r. recommendationRequestToId init_state r \<le> recommendationCount init_state)"
      by (simp add: init_state_def zero_recommendation_def)
  next
    fix t :: state and c
    assume "(\<forall>i. i = 0 \<or> recommendationCount t < i \<longrightarrow>
           encryptedRecommendations t i = zero_recommendation
           \<and> \<not> isRevealed (decryptedResults t i))
        \<and> (\<forall>r. recommendationRequestToId t r \<le> recommendationCount t)"
    then show "(\<forall>i. i = 0 \<or> recommendationCount (fst (exec lib t c)) < i \<longrightarrow>
                encryptedRecommendations (fst (exec lib t c)) i = zero_recommendation
                \<and> \<not> isRevealed (decryptedResults (fst (exec lib t c)) i))
         \<and> (\<forall>r. recommendationRequestToId (fst (exec lib t c)) r
                \<le> recommendationCount (fst (exec lib t c)))"
      using unknown_recommendations_step [OF deny, of t c] by blast
  qed
  then show ?thesis by blast
qed

lemma request_profile_outcome:
  "requestFinancialRecommendation lib s reqId pid =
     (if requestDecryption_returns lib
           [encryptedIncome (encryptedProfiles s pid), encryptedAssets (encryptedProfiles s pid),
            encryptedRiskTolerance (encryptedProfiles s pid),
            encryptedGoals (encryptedProfiles s pid)] generateRecommendation_selector
      then Inr (s\<lparr> requestToProfileId := (requestToProfileId s)(reqId := pid) \<rparr>,
              [RequestDecryption
                 [encryptedIncome (encryptedProfiles s pid),
                  encryptedAssets (encryptedProfiles s pid),
                  encryptedRiskTolerance (encryptedProfiles s pid),
                  encryptedGoals (encryptedProfiles s pid)] generateRecommendation_selector,
               RecommendationRequested reqId pid])
      else Inl DecryptionRequestReverted)"
  by (simp add: requestFinancialRecommendation_def Let_def)

lemma request_reveal_outcome:
  "requestRecommendationDecryption lib s reqId recId =
     (if isRevealed (decryptedResults s recId) then Inl AlreadyDecrypted
      else if requestDecryption_returns lib
           [encryptedProductId (encryptedRecommendations s recId),
            encryptedMatchScore (encryptedRecommendations s recId)]
           decryptRecommendation_selector
      then Inr (s\<lparr> recommendationRequestToId :=
                     (recommendationRequestToId s)(reqId := recId) \<rparr>,
              [RequestDecryption
                 [encryptedProductId (encryptedRecommendations s recId),
                  encryptedMatchScore (encryptedRecommendations s recId)]
                 decryptRecommendation_selector])
      else Inl DecryptionRequestReverted)"
  by (simp add: requestRecommendationDecryption_def Let_def)

text \<open>
  Claim C7, as the code has it. The claim says that a request for a subject that does not
  exist fails with NotFound. The contract has no such check and no such error: on the
  fresh contract \<^verbatim>\<open>requestFinancialRecommendation(5)\<close> reads four zero handles from
  storage and hands them to \<^verbatim>\<open>FHE.requestDecryption\<close>, and what rejects the call is
  the library, with the library's error. That error does not tell whether the subject
  exists: a stored profile whose handles the library refuses (profile 1, submitted with
  zero handles) is rejected in the same way.
\<close>

theorem request_unknown_subject_counterexample:
  "requestFinancialRecommendation test_lib init_state 7 5 = Inl DecryptionRequestReverted
   \<and> profileCount (fst (run test_lib init_state [Submit 1000 0 0 0 0])) = 1
   \<and> requestFinancialRecommendation test_lib
        (fst (run test_lib init_state [Submit 1000 0 0 0 0])) 7 1
       = Inl DecryptionRequestReverted"
  by (simp add: eval_defs)

text \<open>
  Claim C7, amended. Neither request function checks that its subject exists, and
  neither fails with NotFound. A request that succeeds has sent to the oracle exactly the
  handles read from storage under the given id and has recorded the pending entry, and
  nothing else; a request that fails has failed because \<^verbatim>\<open>FHE.requestDecryption\<close>
  reverted (or, for a reveal, because the result is already revealed) and leaves the state
  unchanged. When the library refuses the zero handles, then in every state reached from
  the initial one a request for a profile id that was never assigned (0, or above
  \<^verbatim>\<open>profileCount\<close>) and a reveal request for a recommendation id that was never
  assigned are rejected with the library's revert, without an oracle request and without a
  pending entry.
\<close>

theorem request_unknown_subject:
  "(requestFinancialRecommendation lib s reqId pid = Inr (s', ev) \<longrightarrow>
      ev = [RequestDecryption
              [encryptedIncome (encryptedProfiles s pid),
               encryptedAssets (encryptedProfiles s pid),
               encryptedRiskTolerance (encryptedProfiles s pid),
               encryptedGoals (encryptedProfiles s pid)] generateRecommendation_selector,
            RecommendationRequested reqId pid]
      \<and> s' = s\<lparr> requestToProfileId := (requestToProfileId s)(reqId := pid) \<rparr>)
   \<and> (requestFinancialRecommendation lib s reqId pid = Inl e \<longrightarrow>
      e = DecryptionRequestReverted
      \<and> exec lib s (RequestRecommendation reqId pid) = (s, []))
   \<and> (requestRecommendationDecryption lib s reqId recId = Inr (s', ev) \<longrightarrow>
      ev = [RequestDecryption
              [encryptedProductId (encryptedRecommendations s recId),
               encryptedMatchScore (encryptedRecommendations s recId)]
              decryptRecommendation_selector]
      \<and> s' = s\<lparr> recommendationRequestToId :=
                   (recommendationRequestToId s)(reqId := recId) \<rparr>)
   \<and> (requestRecommendationDecryption lib s reqId recId = Inl e \<longrightarrow>
      e = (if isRevealed (decryptedResults s recId) then AlreadyDecrypted
           else DecryptionRequestReverted)
      \<and> exec lib s (RequestDecryptionOf reqId recId) = (s, []))
   \<and> (\<not> requestDecryption_returns lib [0, 0, 0, 0] generateRecommendation_selector
       \<and> (pid = 0 \<or> profileCount (fst (run lib init_state cs)) < pid) \<longrightarrow>
      requestFinancialRecommendation lib (fst (run lib init_state cs)) reqId pid
        = Inl DecryptionRequestReverted
      \<and> exec lib (fst (run lib init_state cs)) (RequestRecommendation reqId pid)
        = (fst (run lib init_state cs), []))
   \<and> (\<not> requestDecryption_returns lib [0, 0] decryptRecommendation_selector
       \<and> (recId = 0 \<or> recommendationCount (fst (run lib init_state cs)) < recId) \<longrightarrow>
      requestRecommendationDecryption lib (fst (run lib init_state cs)) reqId recId
        = Inl DecryptionRequestReverted
      \<and> exec lib (fst (run lib init_state cs)) (RequestDecryptionOf reqId recId)
        = (fst (run lib init_state cs), []))"
proof (intro conjI impI)
  assume "requestFinancialRecommendation lib s reqId pid = Inr (s', ev)"
  then show "ev = [RequestDecryption
              [encryptedIncome (encryptedProfiles s pid),
               encryptedAssets (encryptedProfiles s pid),
               encryptedRiskTolerance (encryptedProfiles s pid),
               encryptedGoals (encryptedProfiles s pid)] generateRecommendation_selector,
            RecommendationRequested reqId pid]"
    and "s' = s\<lparr> requestToProfileId := (requestToProfileId s)(reqId := pid) \<rparr>"
    by (auto simp: request_profile_outcome split: if_splits)
next
  assume f: "requestFinancialRecommendation lib s reqId pid = Inl e"
  then show "e = DecryptionRequestReverted"
    by (auto simp: request_profile_outcome split: if_splits)
  from f show "exec lib s (RequestRecommendation reqId pid) = (s, [])"
    by (simp add: exec_def)
next
  assume "requestRecommendationDecryption lib s reqId recId = Inr (s', ev)"
  then show "ev = [RequestDecryption
              [encryptedProductId (encryptedRecommendations s recId),
               encryptedMatchScore (encryptedRecommendations s recId)]
              decryptRecommendation_selector]"
    and "s' = s\<lparr> recommendationRequestToId :=
                   (recommendationRequestToId s)(reqId := recId) \<rparr>"
    by (auto simp: request_reveal_outcome split: if_splits)
next
  assume f: "requestRecommendationDecryption lib s reqId recId = Inl e"
  then show "e = (if isRevealed (decryptedResults s recId) then AlreadyDecrypted
           else DecryptionRequestReverted)"
    by (auto simp: request_reveal_outcome split: if_splits)
  from f show "exec lib s (RequestDecryptionOf reqId recId) = (s, [])"
    by (simp add: exec_def)
next
  assume a: "\<not> requestDecryption_returns lib [0, 0, 0, 0] generateRecommendation_selector
       \<and> (pid = 0 \<or> profileCount (fst (run lib init_state cs)) < pid)"
  with unknown_profiles_zero [of lib cs]
  have "encryptedProfiles (fst (run lib init_state cs)) pid = zero_profile" by blast
  with a show r: "requestFinancialRecommendation lib (fst (run lib init_state cs)) reqId pid
        = Inl DecryptionRequestReverted"
    by (simp add: request_profile_outcome zero_profile_def)
  then show "exec lib (fst (run lib init_state cs)) (RequestRecommendation reqId pid)
        = (fst (run lib init_state cs), [])"
    by (simp add: exec_def)
next
  assume a: "\<not> requestDecryption_returns lib [0, 0] decryptRecommendation_selector
       \<and> (recId = 0 \<or> recommendationCount (fst (run lib init_state cs)) < recId)"
  then have deny: "\<not> requestDecryption_returns lib [0, 0] decryptRecommendation_selector"
    by simp
  from unknown_recommendations_zero [OF deny, of cs] a
  have "encryptedRecommendations (fst (run lib init_state cs)) recId = zero_recommendation"
    and "\<not> isRevealed (decryptedResults (fst (run lib init_state cs)) recId)"
    by blast+
  with deny
  show r: "requestRecommendationDecryption lib (fst (run lib init_state cs)) reqId recId
        = Inl DecryptionRequestReverted"
    by (simp add: request_reveal_outcome zero_recommendation_def)
  then show "exec lib (fst (run lib init_state cs)) (RequestDecryptionOf reqId recId)
        = (fst (run lib init_state cs), [])"
    by (simp add: exec_def)
qed

lemma step_request:
  "requestFinancialRecommendation test_lib s_submitted 7 1 =
     Inr (s_pending, [RequestDecryption [11, 12, 13, 14] generateRecommendation_selector,
                      RecommendationRequested 7 1])"
  by (simp add: s_pending_def s_submitted_def eval_defs)

theorem request_unknown_subject_witness:
  "requestFinancialRecommendation test_lib s_submitted 7 1 =
     Inr (s_pending, [RequestDecryption [11, 12, 13, 14] generateRecommendation_selector,
                      RecommendationRequested 7 1])
   \<and> s_pending = s_submitted\<lparr> requestToProfileId := (requestToProfileId s_submitted)(7 := 1) \<rparr>
   \<and> requestFinancialRecommendation test_lib init_state 7 5 = Inl DecryptionRequestReverted
   \<and> exec test_lib init_state (RequestRecommendation 7 5) = (init_state, [])
   \<and> \<not> isl (requestRecommendationDecryption test_lib s_generated 8 1)
   \<and> snd (projr (requestRecommendationDecryption test_lib s_generated 8 1))
       = [RequestDecryption [3, 100] decryptRecommendation_selector]
   \<and> fst (projr (requestRecommendationDecryption test_lib s_generated 8 1))
       = s_generated\<lparr> recommendationRequestToId :=
                        (recommendationRequestToId s_generated)(8 := 1) \<rparr>
   \<and> requestRecommendationDecryption test_lib s_revealed 10 1 = Inl AlreadyDecrypted
   \<and> exec test_lib s_revealed (RequestDecryptionOf 10 1) = (s_revealed, [])
   \<and> \<not> requestDecryption_returns test_lib [0, 0, 0, 0] generateRecommendation_selector
   \<and> profileCount (fst (run test_lib init_state [Submit 1000 11 12 13 14])) < 5
   \<and> requestFinancialRecommendation test_lib
        (fst (run test_lib init_state [Submit 1000 11 12 13 14])) 7 5
       = Inl DecryptionRequestReverted
   \<and> \<not> requestDecryption_returns test_lib [0, 0] decryptRecommendation_selector
   \<and> recommendationCount (fst (run test_lib init_state [Submit 1000 11 12 13 14])) < 1
   \<and> requestRecommendationDecryption test_lib
        (fst (run test_lib init_state [Submit 1000 11 12 13 14])) 8 1
       = Inl DecryptionRequestReverted"
proof -
  have deny: "\<not> requestDecryption_returns test_lib [0, 0, 0, 0] generateRecommendation_selector"
    "\<not> requestDecryption_returns test_lib [0, 0] decryptRecommendation_selector"
    by (simp_all add: test_lib_def)
  have counts: "profileCount (fst (run test_lib init_state [Submit 1000 11 12 13 14])) < 5"
    "recommendationCount (fst (run test_lib init_state [Submit 1000 11 12 13 14])) < 1"
    by (simp_all add: eval_defs)
  have revealed: "requestRecommendationDecryption test_lib s_revealed 10 1
      = Inl AlreadyDecrypted"
    by (simp add: requestRecommendationDecryption_def s_revealed_fields)
  from step_request request_unknown_subject [of test_lib s_submitted 7 1 s_pending
      "[RequestDecryption [11, 12, 13, 14] generateRecommendation_selector,
        RecommendationRequested 7 1]"]
  have 1: "s_pending
      = s_submitted\<lparr> requestToProfileId := (requestToProfileId s_submitted)(7 := 1) \<rparr>"
    by blast
  from revealed request_unknown_subject [where lib = test_lib and s = s_revealed
      and reqId = 10 and recId = 1 and e = AlreadyDecrypted]
  have 2: "exec test_lib s_revealed (RequestDecryptionOf 10 1) = (s_revealed, [])"
    by blast
  from deny(1) counts(1) request_unknown_subject [where lib = test_lib and reqId = 7
      and pid = 5 and cs = "[Submit 1000 11 12 13 14]"]
  have 3: "requestFinancialRecommendation test_lib
        (fst (run test_lib init_state [Submit 1000 11 12 13 14])) 7 5
       = Inl DecryptionRequestReverted" by blast
  from deny(2) counts(2) request_unknown_subject [where lib = test_lib and reqId = 8
      and recId = 1 and cs = "[Submit 1000 11 12 13 14]"]
  have 4: "requestRecommendationDecryption test_lib
        (fst (run test_lib init_state [Submit 1000 11 12 13 14])) 8 1
       = Inl DecryptionRequestReverted" by blast
  have fresh: "requestFinancialRecommendation test_lib init_state 7 5
      = Inl DecryptionRequestReverted"
    by (simp add: eval_defs)
  from fresh request_unknown_subject [where lib = test_lib and s = init_state
      and reqId = 7 and pid = 5 and e = DecryptionRequestReverted]
  have 5: "exec test_lib init_state (RequestRecommendation 7 5) = (init_state, [])"
    by blast
  have ok: "\<not> isl (requestRecommendationDecryption test_lib s_generated 8 1)"
    by (simp add: requestRecommendationDecryption_def s_generated_fields Let_def test_lib_def)
  have handles: "encryptedProductId (encryptedRecommendations s_generated 1) = 3"
    "encryptedMatchScore (encryptedRecommendations s_generated 1) = 100"
    by (simp_all add: s_generated_fields)
  from Inr_projr [OF ok] request_unknown_subject [where lib = test_lib and s = s_generated
      and reqId = 8 and recId = 1
      and s' = "fst (projr (requestRecommendationDecryption test_lib s_generated 8 1))"
      and ev = "snd (projr (requestRecommendationDecryption test_lib s_generated 8 1))"]
  have 6: "snd (projr (requestRecommendationDecryption test_lib s_generated 8 1))
       = [RequestDecryption
            [encryptedProductId (encryptedRecommendations s_generated 1),
             encryptedMatchScore (encryptedRecommendations s_generated 1)]
            decryptRecommendation_selector]"
    "fst (projr (requestRecommendationDecryption test_lib s_generated 8 1))
       = s_generated\<lparr> recommendationRequestToId :=
                        (recommendationRequestToId s_generated)(8 := 1) \<rparr>"
    by blast+
  from 6(1) handles
  have 7: "snd (projr (requestRecommendationDecryption test_lib s_generated 8 1))
       = [RequestDecryption [3, 100] decryptRecommendation_selector]" by simp
  from step_request revealed deny counts fresh ok 1 2 3 4 5 6(2) 7 show ?thesis by blast
qed

text \<open>
  Claim C9, as the code has it. The claim says that two pending requests for the same
  subject and kind are never live together. With request 7 pending for profile 1, a
  second \<^verbatim>\<open>requestFinancialRecommendation(1)\<close> is accepted under request id 8, and
  afterwards both 7 and 8 map to profile 1.
\<close>

theorem two_pending_counterexample:
  "snd (exec test_lib s_pending (RequestRecommendation 8 1)) =
      [RequestDecryption [11, 12, 13, 14] generateRecommendation_selector,
       RecommendationRequested 8 1]
   \<and> requestToProfileId (fst (exec test_lib s_pending (RequestRecommendation 8 1))) 7 = 1
   \<and> requestToProfileId (fst (exec test_lib s_pending (RequestRecommendation 8 1))) 8 = 1"
  by (simp add: s_pending_def s_submitted_def eval_defs)

text \<open>
  Claim C9, amended. The contract neither rejects nor supersedes: a second request for
  the same subject and kind, issued before the first is resolved and given a different
  request id by the oracle, succeeds, and both pending entries are live afterwards.
\<close>

theorem requests_accumulate:
  "(r1 \<noteq> r2 \<and> requestFinancialRecommendation lib s r1 pid = Inr (s1, ev1) \<longrightarrow>
      (\<exists>s2 ev2. requestFinancialRecommendation lib s1 r2 pid = Inr (s2, ev2)
         \<and> requestToProfileId s2 r1 = pid \<and> requestToProfileId s2 r2 = pid))
   \<and> (r1 \<noteq> r2 \<and> requestRecommendationDecryption lib s r1 recId = Inr (s1, ev1) \<longrightarrow>
      (\<exists>s2 ev2. requestRecommendationDecryption lib s1 r2 recId = Inr (s2, ev2)
         \<and> recommendationRequestToId s2 r1 = recId \<and> recommendationRequestToId s2 r2 = recId))"
  by (auto simp: requestFinancialRecommendation_def requestRecommendationDecryption_def Let_def
        split: if_splits)

theorem requests_accumulate_witness:
  "(7::uint256) \<noteq> 8 \<and> (8::uint256) \<noteq> 9
   \<and> \<not> isl (requestFinancialRecommendation test_lib s_submitted 7 1)
   \<and> (\<exists>s2 ev2. requestFinancialRecommendation test_lib
          (fst (projr (requestFinancialRecommendation test_lib s_submitted 7 1))) 8 1 = Inr (s2, ev2)
         \<and> requestToProfileId s2 7 = 1 \<and> requestToProfileId s2 8 = 1)
   \<and> \<not> isl (requestRecommendationDecryption test_lib s_generated 8 1)
   \<and> (\<exists>s2 ev2. requestRecommendationDecryption test_lib
          (fst (projr (requestRecommendationDecryption test_lib s_generated 8 1))) 9 1 = Inr (s2, ev2)
         \<and> recommendationRequestToId s2 8 = 1 \<and> recommendationRequestToId s2 9 = 1)"
proof -
  have ne: "(7::uint256) \<noteq> 8" "(8::uint256) \<noteq> 9" by simp_all
  have a: "\<not> isl (requestFinancialRecommendation test_lib s_submitted 7 1)"
    by (simp add: requestFinancialRecommendation_def Let_def s_submitted_def eval_defs)
  have b: "\<not> isl (requestRecommendationDecryption test_lib s_generated 8 1)"
    by (simp add: requestRecommendationDecryption_def s_generated_fields Let_def test_lib_def)
  from ne Inr_projr [OF a] Inr_projr [OF b]
    requests_accumulate [of 7 8 test_lib s_submitted 1
      "fst (projr (requestFinancialRecommendation test_lib s_submitted 7 1))"
      "snd (projr (requestFinancialRecommendation test_lib s_submitted 7 1))"]
    requests_accumulate [of 8 9 test_lib s_generated _
      "fst (projr (requestRecommendationDecryption test_lib s_generated 8 1))"
      "snd (projr (requestRecommendationDecryption test_lib s_generated 8 1))" 1]
  show ?thesis using a b by blast
qed

section \<open>The result before the reveal\<close>

text \<open>
  Claim C2, evaluated on the code. \<^verbatim>\<open>generateRecommendation\<close> writes the plaintext
  product and score into \<^verbatim>\<open>decryptedResults\<close> together with
  \<^verbatim>\<open>isRevealed = false\<close>, and \<^verbatim>\<open>getDecryptedResult\<close> returns the fields
  whatever the flag says. From the same state, with the same ciphertext handles stored, the
  callback delivering the profile (50000, 600000, 80, 1) makes the public read return
  (3, 100, false) and the callback delivering (10000, 1000, 5, 0) makes it return
  (1, 6, false): before any reveal the readable values depend on the decrypted profile.
\<close>

theorem result_plaintext_before_reveal:
  "getDecryptedResult (fst (exec test_lib s_pending
      (GenerateRecommendation 1001 7 [50000, 600000, 80, 1] [1]))) 1 = Inr (3, 100, False)
   \<and> getDecryptedResult (fst (exec test_lib s_pending
      (GenerateRecommendation 1001 7 [10000, 1000, 5, 0] [1]))) 1 = Inr (1, 6, False)"
  by (simp add: getDecryptedResult_def exec_def s_pending_fields generateRecommendation_def
        test_lib_def decode_uint32_def compute_def determineProductId_def
        calculateMatchScore_def checked_add32_def checked_mul32_def checked_inc256_def)

end
